theory Spec2Isabelle
  imports Complex_Main
begin

section \<open>Data model\<close>

text \<open>
  The client of the magnet game: the modules \<open>Game\<close> (js/game.js), \<open>Shapes\<close> and the
  entry point (js/main.js) and \<open>WebSocketClient\<close>. JavaScript numbers are modelled as
  real numbers, JavaScript strings as \<open>string\<close>, \<open>null\<close> as \<open>None\<close>. Snapshots and
  messages arrive as parsed JSON; the records below hold the fields the client reads,
  and a message has the fields of its type. The fields \<open>x\<close>, \<open>y\<close> of a position are
  \<open>xc\<close>, \<open>yc\<close>; the field \<open>id\<close> of a player or magnet is \<open>player_id\<close>,
  \<open>magnet_id\<close>; the field \<open>magnetId\<close> of an entry of \<open>animatingMagnets\<close> is
  \<open>anim_magnetId\<close>.
\<close>

record position =
  xc :: real
  yc :: real

record player =
  player_id :: string
  name :: string
  connected :: bool
  remainingMagnets :: int

record magnet =
  magnet_id :: string
  playerId :: string
  position :: position

record game_state =
  sessionId :: string
  shapeType :: string
  status :: string
  players :: "player list"
  magnets :: "magnet list"
  currentTurnPlayerId :: "string option"

record movement =
  magnetId :: string
  fromPosition :: position
  toPosition :: position

text \<open>
  The server messages, by their \<open>type\<close> tag, with the fields the handlers read:
  \<open>SESSION_CREATED sessionId gameState\<close>, \<open>SESSION_JOINED gameState\<close>,
  \<open>PLAYER_JOINED gameState player\<close>, \<open>PLAYER_LEFT gameState playerId\<close>,
  \<open>GAME_STARTED gameState\<close>, \<open>MAGNET_PLACED gameState magnet movements\<close>
  (\<open>movements\<close> may be absent), \<open>PLACEMENT_INVALID reason\<close>,
  \<open>MAGNETS_CLUMPED gameState clumpedMagnets collectorPlayerId magnetsCollected\<close>,
  \<open>TURN_CHANGED currentTurnPlayerId\<close>, \<open>GAME_OVER winnerId winnerName\<close>,
  \<open>ERROR message\<close>; \<open>OTHER\<close> is any other tag, which the switch ignores.
\<close>

datatype message =
    SESSION_CREATED string game_state
  | SESSION_JOINED game_state
  | PLAYER_JOINED game_state player
  | PLAYER_LEFT game_state string
  | GAME_STARTED game_state
  | MAGNET_PLACED game_state magnet "movement list option"
  | PLACEMENT_INVALID string
  | MAGNETS_CLUMPED game_state "magnet list option" string int
  | TURN_CHANGED "string option"
  | GAME_OVER "string option" string
  | ERROR string
  | OTHER string

text \<open>The commands \<open>WebSocketClient\<close> sends.\<close>

datatype command =
    CREATE_SESSION string string
  | JOIN_SESSION string string
  | PLACE_MAGNET position
  | LEAVE_SESSION

subsection \<open>The state of the client\<close>

text \<open>An entry of \<open>animatingMagnets\<close>: \<open>{ magnetId, fromPos, toPos, progress }\<close>.\<close>

record anim =
  anim_magnetId :: string
  fromPos :: position
  toPos :: position
  progress :: real

text \<open>An entry of the local \<open>animations\<close> of \<open>animateClumpCollection\<close>.\<close>

record flying =
  fly_magnet :: magnet
  startPos :: position
  fly_progress :: real

text \<open>
  The only completion callbacks main.js passes are closures
  \<open>() => Game.updateState(message.gameState)\<close>: \<open>UpdateState gs\<close> is that closure
  with the snapshot it captured.
\<close>

datatype callback = UpdateState game_state

text \<open>
  A callback handed to \<open>requestAnimationFrame\<close>: the closure \<open>animate\<close> of
  \<open>animateMovements\<close> with the \<open>startTime\<close> and \<open>onComplete\<close> it captured, or
  the closure \<open>animate\<close> of \<open>animateClumpCollection\<close> with \<open>startTime\<close>,
  \<open>targetX\<close>, \<open>targetY\<close>, \<open>animations\<close>, \<open>clumpedMagnets\<close> and \<open>onComplete\<close>.
\<close>

datatype frame_callback =
    MoveAnimate real "callback option"
  | ClumpAnimate real real real "flying list" "magnet list" "callback option"

text \<open>
  The game canvas: its size and whether it carries the class \<open>disabled\<close>. \<open>canvas\<close>
  and \<open>ctx\<close> of the Game module are set together by \<open>init\<close>, so one optional
  field stands for both.
\<close>

record canvas_el =
  width :: nat
  height :: nat
  disabled :: bool

text \<open>
  The program state: the variables of the Game module (\<open>gameState\<close>, \<open>myPlayerId\<close>,
  \<open>canvas\<close>, \<open>animatingMagnets\<close>, \<open>animationFrameId\<close>), of Shapes (\<open>maskCtx\<close>: the
  red channel of each pixel of the mask canvas) and of main.js (\<open>currentSessionId\<close>);
  the parts of the page the handlers write (the message list \<open>gameMessages\<close>, which
  \<open>showMessage\<close> looks up and may not find, the game-over modal, the winner text, the
  visible screen); the browser's list of requested animation frames; and the socket
  with the commands sent so far. Other writes to the page (roster, turn indicator,
  session code) are outputs nothing here reads and are left out, as are the timers
  that fade a message.
\<close>

record state =
  gameState :: "game_state option"
  myPlayerId :: "string option"
  canvas :: "canvas_el option"
  animatingMagnets :: "anim list"
  animationFrameId :: "nat option"
  maskCtx :: "(int \<Rightarrow> int \<Rightarrow> nat) option"
  currentSessionId :: "string option"
  gameMessages :: "(string \<times> string) list option"
  gameOverModalHidden :: bool
  winnerNameText :: string
  screen :: string
  frameRequests :: "(nat \<times> frame_callback) list"
  nextFrameHandle :: nat
  socketOpen :: bool
  sent :: "command list"

text \<open>
  A JavaScript function either returns or throws; either way the state it has
  written so far stays. \<open>Normal s\<close> is a return in state \<open>s\<close>, \<open>Abrupt s\<close> a throw.
\<close>

datatype outcome = Normal state | Abrupt state

fun state_of :: "outcome \<Rightarrow> state" where
  "state_of (Normal s) = s"
| "state_of (Abrupt s) = s"

fun and_then :: "outcome \<Rightarrow> (state \<Rightarrow> outcome) \<Rightarrow> outcome" where
  "and_then (Normal s) f = f s"
| "and_then (Abrupt s) f = Abrupt s"

section \<open>Game module\<close>

subsection \<open>Configuration\<close>

definition MAGNET_RADIUS :: real where
  "MAGNET_RADIUS = 12"

definition CLUMP_THRESHOLD :: real where
  "CLUMP_THRESHOLD = 30"

definition ATTRACTION_RANGE :: real where
  "ATTRACTION_RANGE = 150"

definition ANIMATION_DURATION :: real where
  "ANIMATION_DURATION = 600"

text \<open>A colour \<open>'#rrggbb'\<close> is the number \<open>parseInt(color.slice(1), 16)\<close> reads from it.\<close>

definition PLAYER_COLORS :: "nat list" where
  "PLAYER_COLORS = [0xf43f5e, 0x3b82f6, 0x22c55e, 0xf59e0b]"

subsection \<open>Input gate\<close>

definition canPlaceMagnet :: "state \<Rightarrow> bool" where
  "canPlaceMagnet s =
     (case gameState s of
        None \<Rightarrow> False
      | Some gs \<Rightarrow>
          if status gs \<noteq> ''playing'' then False
          else if currentTurnPlayerId gs \<noteq> myPlayerId s then False
          else if length (animatingMagnets s) > 0 then False
          else (case find (\<lambda>p. Some (player_id p) = myPlayerId s) (players gs) of
                  None \<Rightarrow> False
                | Some myPlayer \<Rightarrow> if remainingMagnets myPlayer \<le> 0 then False else True))"

text \<open>
  \<open>showMessage\<close>: without the container nothing happens; otherwise the message goes
  in front and the list is cut to five from the end.
\<close>

definition showMessage :: "string \<Rightarrow> string \<Rightarrow> state \<Rightarrow> state" where
  "showMessage txt type s =
     (case gameMessages s of
        None \<Rightarrow> s
      | Some ms \<Rightarrow> s\<lparr>gameMessages := Some (take 5 ((txt, type) # ms))\<rparr>)"

text \<open>\<open>Shapes.isInsideShape\<close>: a pixel outside the mask canvas reads as 0.\<close>

definition isInsideShape :: "state \<Rightarrow> real \<Rightarrow> real \<Rightarrow> bool" where
  "isInsideShape s x y =
     (case maskCtx s of
        None \<Rightarrow> False
      | Some pixel \<Rightarrow> pixel \<lfloor>x\<rfloor> \<lfloor>y\<rfloor> > 128)"

text \<open>\<open>WebSocketClient.send\<close> sends only on an open socket.\<close>

definition send :: "command \<Rightarrow> state \<Rightarrow> state" where
  "send c s = (if \<not> socketOpen s then s else s\<lparr>sent := sent s @ [c]\<rparr>)"

definition placeMagnet :: "position \<Rightarrow> state \<Rightarrow> state" where
  "placeMagnet pos s = send (PLACE_MAGNET pos) s"

definition leaveSession :: "state \<Rightarrow> state" where
  "leaveSession s = send LEAVE_SESSION s"

definition attemptPlacement :: "position \<Rightarrow> state \<Rightarrow> state" where
  "attemptPlacement coords s =
     (if \<not> isInsideShape s (xc coords) (yc coords)
      then showMessage ''Cannot place magnet outside the shape!'' ''warning'' s
      else placeMagnet coords s)"

text \<open>
  \<open>handleCanvasClick\<close>, on the coordinates \<open>Shapes.getScaledCoordinates\<close> gave for the
  click.
\<close>

definition handleCanvasClick :: "position \<Rightarrow> state \<Rightarrow> state" where
  "handleCanvasClick coords s = (if \<not> canPlaceMagnet s then s else attemptPlacement coords s)"

subsection \<open>Canvas output\<close>

text \<open>
  What the code draws is the list of calls it makes on the 2D context, in order. A
  colour is a fixed CSS string, a colour \<open>'#rrggbb'\<close> (\<open>Hex\<close>), such a colour with two
  more hex digits appended (\<open>HexSuffix\<close>, for \<open>color + '40'\<close>), or a template
  \<open>rgba(r, g, b, a)\<close> with a computed \<open>a\<close>. A gradient is given with its colour stops.
\<close>

datatype colour =
    Css string
  | Hex nat
  | HexSuffix nat string
  | Rgba nat nat nat real

datatype style =
    Solid colour
  | LinearGradient real real real real "(real \<times> colour) list"
  | RadialGradient real real real real real real "(real \<times> colour) list"

datatype cmd =
    ClearRect real real real real
  | Save
  | Restore
  | StrokeStyle style
  | FillStyle style
  | LineWidth real
  | LineDash "real list"
  | GlobalAlpha real
  | BeginPath
  | ClosePath
  | MoveTo real real
  | LineTo real real
  | Arc real real real real real
  | Ellipse real real real real real real real
  | Rect real real real real
  | Fill
  | Stroke

text \<open>\<open>Array.prototype.findIndex\<close>: the first index that satisfies, or \<open>-1\<close>.\<close>

fun findIndexFrom :: "int \<Rightarrow> ('a \<Rightarrow> bool) \<Rightarrow> 'a list \<Rightarrow> int" where
  "findIndexFrom i P [] = -1"
| "findIndexFrom i P (x # xs) = (if P x then i else findIndexFrom (i + 1) P xs)"

definition findIndex :: "('a \<Rightarrow> bool) \<Rightarrow> 'a list \<Rightarrow> int" where
  "findIndex P xs = findIndexFrom 0 P xs"

text \<open>
  \<open>Math.round(2.55 * percent)\<close>, and the three channels moved up or down and clipped.
\<close>

definition colourAmount :: "nat \<Rightarrow> nat" where
  "colourAmount percent = nat \<lfloor>2.55 * real percent + 1 / 2\<rfloor>"

definition lightenColor :: "nat \<Rightarrow> nat \<Rightarrow> nat" where
  "lightenColor num percent =
     (let amt = colourAmount percent;
          R = min 255 (num div 0x10000 + amt);
          G = min 255 ((num div 0x100) mod 0x100 + amt);
          B = min 255 (num mod 0x100 + amt)
      in R * 0x10000 + G * 0x100 + B)"

definition darkenColor :: "nat \<Rightarrow> nat \<Rightarrow> nat" where
  "darkenColor num percent =
     (let amt = colourAmount percent;
          R = nat (max 0 (int (num div 0x10000) - int amt));
          G = nat (max 0 (int ((num div 0x100) mod 0x100) - int amt));
          B = nat (max 0 (int (num mod 0x100) - int amt))
      in R * 0x10000 + G * 0x100 + B)"

text \<open>
  \<open>PLAYER_COLORS[playerIndex % PLAYER_COLORS.length]\<close>: with \<open>playerIndex = -1\<close> the
  remainder is \<open>-1\<close> and the lookup gives \<open>undefined\<close>.
\<close>

definition playerColour :: "int \<Rightarrow> nat option" where
  "playerColour playerIndex =
     (if playerIndex < 0 then None
      else Some (PLAYER_COLORS ! nat (playerIndex mod int (length PLAYER_COLORS))))"

text \<open>The loop \<open>for (angle = 0; angle < Math.PI * 2; angle += Math.PI / 4)\<close>.\<close>

definition fieldAngles :: "real list" where
  "fieldAngles = map (\<lambda>k. real k * (pi / 4)) [0..<8]"

text \<open>
  \<open>drawMagnetAt\<close>. For an owner that is not in the roster the colour is \<open>undefined\<close>
  and \<open>addColorStop\<close> throws on \<open>'undefined40'\<close>: the result is \<open>None\<close>.
\<close>

definition drawMagnetAt ::
  "player list \<Rightarrow> real \<Rightarrow> real \<Rightarrow> string \<Rightarrow> real \<Rightarrow> real \<Rightarrow> cmd list option" where
  "drawMagnetAt ps x y owner scale alpha =
     (case playerColour (findIndex (\<lambda>p. player_id p = owner) ps) of
        None \<Rightarrow> None
      | Some color \<Rightarrow>
          let radius = MAGNET_RADIUS * scale in
          Some ([Save, GlobalAlpha alpha,
                 FillStyle (RadialGradient x y 0 x y (radius * 2)
                   [(0, HexSuffix color ''40''), (1, Css ''transparent'')]),
                 BeginPath, Arc x y (radius * 2) 0 (pi * 2), Fill,
                 FillStyle (RadialGradient (x - 3 * scale) (y - 3 * scale) 0 x y radius
                   [(0, Hex (lightenColor color 30)), (0.7, Hex color),
                    (1, Hex (darkenColor color 20))]),
                 StrokeStyle (Solid (Hex (darkenColor color 30))),
                 LineWidth (2 * scale),
                 BeginPath, Arc x y radius 0 (pi * 2), Fill, Stroke,
                 FillStyle (Solid (Css ''rgba(255, 255, 255, 0.3)'')),
                 BeginPath, Arc (x - 3 * scale) (y - 3 * scale) (radius * 0.4) 0 (pi * 2), Fill,
                 StrokeStyle (Solid (Rgba 255 255 255 (0.2 * alpha))),
                 LineWidth 1]
                @ concat (map (\<lambda>angle.
                    [BeginPath,
                     MoveTo (x + cos angle * radius * 0.6) (y + sin angle * radius * 0.6),
                     LineTo (x + cos angle * radius * 1.3) (y + sin angle * radius * 1.3),
                     Stroke]) fieldAngles)
                @ [Restore]))"

definition drawMagnet :: "player list \<Rightarrow> string option \<Rightarrow> magnet \<Rightarrow> cmd list option" where
  "drawMagnet ps me m =
     (case drawMagnetAt ps (xc (position m)) (yc (position m)) (playerId m) 1 1 of
        None \<Rightarrow> None
      | Some body \<Rightarrow>
          Some (body @
            (if Some (playerId m) = me
             then [Save, StrokeStyle (Solid (Css ''rgba(255, 255, 255, 0.5)'')), LineWidth 1,
                   LineDash [2, 2], BeginPath,
                   Arc (xc (position m)) (yc (position m)) (MAGNET_RADIUS + 4) 0 (pi * 2),
                   Stroke, Restore]
             else [])))"

text \<open>Drawing a list of magnets in order; the first throw ends it.\<close>

fun drawEach :: "player list \<Rightarrow> string option \<Rightarrow> magnet list \<Rightarrow> cmd list option" where
  "drawEach ps me [] = Some []"
| "drawEach ps me (m # ms) =
     (case drawMagnet ps me m of
        None \<Rightarrow> None
      | Some c \<Rightarrow> (case drawEach ps me ms of None \<Rightarrow> None | Some cs \<Rightarrow> Some (c @ cs)))"

definition drawMagnets :: "player list \<Rightarrow> string option \<Rightarrow> magnet list \<Rightarrow> cmd list option" where
  "drawMagnets ps me ms = drawEach ps me ms"

text \<open>The loops \<open>for (let x = 0; x < limit; x += gridSize)\<close> of \<open>drawBackground\<close>.\<close>

function gridFrom :: "nat \<Rightarrow> nat \<Rightarrow> nat list" where
  "gridFrom x limit = (if x < limit then x # gridFrom (x + 40) limit else [])"
  by pat_completeness auto
termination
  by (relation "measure (\<lambda>(x, limit). limit - x)") auto

declare gridFrom.simps [simp del]

definition drawBackground :: "canvas_el \<Rightarrow> cmd list" where
  "drawBackground c =
     [Save, StrokeStyle (Solid (Css ''rgba(99, 102, 241, 0.05)'')), LineWidth 1]
     @ concat (map (\<lambda>x. [BeginPath, MoveTo (real x) 0, LineTo (real x) (real (height c)), Stroke])
                (gridFrom 0 (width c)))
     @ concat (map (\<lambda>y. [BeginPath, MoveTo 0 (real y), LineTo (real (width c)) (real y), Stroke])
                (gridFrom 0 (height c)))
     @ [Restore]"

subsection \<open>Attraction lines\<close>

text \<open>The pairs \<open>(magnets[i], magnets[j])\<close>, \<open>i < j\<close>, in the order of the two loops.\<close>

fun magnetPairs :: "'a list \<Rightarrow> ('a \<times> 'a) list" where
  "magnetPairs [] = []"
| "magnetPairs (m # ms) = map (Pair m) ms @ magnetPairs ms"

definition distance :: "magnet \<Rightarrow> magnet \<Rightarrow> real" where
  "distance m1 m2 =
     (let dx = xc (position m2) - xc (position m1);
          dy = yc (position m2) - yc (position m1)
      in sqrt (dx * dx + dy * dy))"

text \<open>The body of the first \<open>if\<close> of the inner loop: the dashed line of the attraction field.\<close>

definition attractionField :: "magnet \<Rightarrow> magnet \<Rightarrow> cmd list" where
  "attractionField m1 m2 =
     (let d = distance m1 m2;
          normalizedDist = d / ATTRACTION_RANGE;
          strength = 1 / (normalizedDist * normalizedDist + 0.2);
          clampedStrength = min strength 3
      in [StrokeStyle (Solid (Rgba 99 102 241 (min (clampedStrength * 0.25) 0.8))),
          LineWidth (1 + clampedStrength * 1.5),
          LineDash [4, 4],
          BeginPath,
          MoveTo (xc (position m1)) (yc (position m1)),
          LineTo (xc (position m2)) (yc (position m2)),
          Stroke]
         @ (if d < CLUMP_THRESHOLD * 2
            then [FillStyle (Solid (Rgba 99 102 241 (clampedStrength * 0.3))),
                  BeginPath,
                  Arc ((xc (position m1) + xc (position m2)) / 2)
                      ((yc (position m1) + yc (position m2)) / 2)
                      (4 + clampedStrength) 0 (pi * 2),
                  Fill]
            else []))"

text \<open>
  The body of the second \<open>if\<close>: the pulsing highlight of a clumped pair. \<open>now\<close> is
  the value of \<open>Date.now()\<close>.
\<close>

definition clumpHighlight :: "real \<Rightarrow> magnet \<Rightarrow> magnet \<Rightarrow> cmd list" where
  "clumpHighlight now m1 m2 =
     (let d = distance m1 m2;
          pulse = 0.6 + sin (now / 200) * 0.2
      in [StrokeStyle (Solid (Rgba 244 63 94 pulse)),
          LineWidth 4,
          LineDash [],
          BeginPath,
          MoveTo (xc (position m1)) (yc (position m1)),
          LineTo (xc (position m2)) (yc (position m2)),
          Stroke,
          StrokeStyle (Solid (Rgba 244 63 94 (pulse * 0.5))),
          LineWidth 2,
          BeginPath,
          Arc ((xc (position m1) + xc (position m2)) / 2)
              ((yc (position m1) + yc (position m2)) / 2)
              (d / 2 + 10) 0 (pi * 2),
          Stroke])"

text \<open>One pass of the inner loop body, for the pair \<open>(m1, m2)\<close>.\<close>

definition drawPair :: "real \<Rightarrow> magnet \<Rightarrow> magnet \<Rightarrow> cmd list" where
  "drawPair now m1 m2 =
     (if distance m1 m2 < ATTRACTION_RANGE \<and> distance m1 m2 > CLUMP_THRESHOLD
      then attractionField m1 m2 else [])
     @ (if distance m1 m2 \<le> CLUMP_THRESHOLD then clumpHighlight now m1 m2 else [])"

definition drawAttractionLines :: "real \<Rightarrow> game_state option \<Rightarrow> cmd list" where
  "drawAttractionLines now g =
     (case g of
        None \<Rightarrow> []
      | Some gs \<Rightarrow>
          if length (magnets gs) < 2 then []
          else [Save]
               @ concat (map (\<lambda>(m1, m2). drawPair now m1 m2) (magnetPairs (magnets gs)))
               @ [Restore])"

section \<open>Shapes module: the outline\<close>

definition CANVAS_WIDTH :: real where
  "CANVAS_WIDTH = 800"

definition CANVAS_HEIGHT :: real where
  "CANVAS_HEIGHT = 600"

definition TRIANGLE_SHAPE :: "(real \<times> real) list" where
  "TRIANGLE_SHAPE = [(400, 80), (180, 480), (620, 480)]"

definition DIAMOND_SHAPE :: "(real \<times> real) list" where
  "DIAMOND_SHAPE = [(400, 60), (600, 300), (400, 540), (200, 300)]"

text \<open>The ten points of the star, \<open>i = 0, ..., 9\<close>.\<close>

definition STAR_SHAPE :: "(real \<times> real) list" where
  "STAR_SHAPE =
     map (\<lambda>i. let angle = real i * pi / 5 - pi / 2;
                  radius = (if i mod 2 = 0 then 220 else 90)
              in (CANVAS_WIDTH / 2 + cos angle * radius, CANVAS_HEIGHT / 2 + sin angle * radius))
       [0..<10]"

text \<open>The loop \<open>for (let t = 0; t <= Math.PI * 2; t += 0.1)\<close> of the heart.\<close>

function heartFrom :: "real \<Rightarrow> (real \<times> real) list" where
  "heartFrom t =
     (if t \<le> pi * 2
      then (let x = 16 * (sin t) ^ 3;
                y = - (13 * cos t - 5 * cos (2 * t) - 2 * cos (3 * t) - cos (4 * t))
            in (CANVAS_WIDTH / 2 + x * 12, 300 + y * 12)) # heartFrom (t + 0.1)
      else [])"
  by pat_completeness auto
termination
proof (relation "measure (\<lambda>t. nat \<lceil>(pi * 2 - t) * 10 + 1\<rceil>)")
  show "wf (measure (\<lambda>t. nat \<lceil>(pi * 2 - t) * 10 + 1\<rceil>))"
    by simp
next
  fix t :: real
  assume le: "t \<le> pi * 2"
  have eq: "(pi * 2 - (t + 0.1)) * 10 + 1 = ((pi * 2 - t) * 10 + 1) - 1"
    by (simp add: algebra_simps)
  have pos: "1 \<le> \<lceil>(pi * 2 - t) * 10 + 1\<rceil>"
    using le by (simp add: le_ceiling_iff)
  have step: "\<lceil>(pi * 2 - (t + 0.1)) * 10 + 1\<rceil> = \<lceil>(pi * 2 - t) * 10 + 1\<rceil> - 1"
    unfolding eq by (rule ceiling_diff_one)
  have "nat \<lceil>(pi * 2 - (t + 0.1)) * 10 + 1\<rceil> < nat \<lceil>(pi * 2 - t) * 10 + 1\<rceil>"
    unfolding step using pos by linarith
  then show "(t + 0.1, t) \<in> measure (\<lambda>t. nat \<lceil>(pi * 2 - t) * 10 + 1\<rceil>)"
    unfolding in_measure .
qed

declare heartFrom.simps [simp del]

definition HEART_SHAPE :: "(real \<times> real) list" where
  "HEART_SHAPE = heartFrom 0"

definition SHARK_SHAPE :: "(real \<times> real) list" where
  "SHARK_SHAPE =
     [(150, 300), (250, 250), (400, 220), (420, 150), (440, 220), (550, 240), (650, 200),
      (600, 300), (650, 400), (550, 360), (400, 380), (300, 400), (320, 450), (280, 380),
      (200, 350)]"

definition TREE_FOLIAGE :: "(real \<times> real) list list" where
  "TREE_FOLIAGE =
     [[(400, 120), (250, 300), (550, 300)],
      [(400, 80), (280, 220), (520, 220)],
      [(400, 50), (320, 150), (480, 150)]]"

definition drawPolygon :: "(real \<times> real) list \<Rightarrow> cmd list" where
  "drawPolygon points =
     (if length points < 3 then []
      else [BeginPath, MoveTo (fst (hd points)) (snd (hd points))]
           @ map (\<lambda>p. LineTo (fst p) (snd p)) (tl points)
           @ [ClosePath, Fill, Stroke])"

definition drawCatFace :: "cmd list" where
  "drawCatFace =
     (let hx = 400; hy = 220 in
      [Save,
       FillStyle (Solid (Css ''rgba(255, 255, 255, 0.8)'')),
       StrokeStyle (Solid (Css ''rgba(99, 102, 241, 0.8)'')),
       LineWidth 2,
       BeginPath, Ellipse (hx - 25) (hy - 5) 12 16 0 0 (pi * 2), Fill, Stroke,
       BeginPath, Ellipse (hx + 25) (hy - 5) 12 16 0 0 (pi * 2), Fill, Stroke,
       FillStyle (Solid (Css ''rgba(30, 30, 60, 0.9)'')),
       BeginPath, Ellipse (hx - 25) (hy - 5) 4 10 0 0 (pi * 2), Fill,
       BeginPath, Ellipse (hx + 25) (hy - 5) 4 10 0 0 (pi * 2), Fill,
       FillStyle (Solid (Css ''rgba(244, 63, 94, 0.8)'')),
       BeginPath, MoveTo hx (hy + 15), LineTo (hx - 8) (hy + 25), LineTo (hx + 8) (hy + 25),
       ClosePath, Fill,
       Restore])"

definition drawCat :: "cmd list" where
  "drawCat =
     [BeginPath, Ellipse 400 380 120 80 0 0 (pi * 2), Fill, Stroke,
      BeginPath, Arc 400 220 70 0 (pi * 2), Fill, Stroke]
     @ drawPolygon [(340, 160), (320, 100), (360, 130)]
     @ drawPolygon [(460, 160), (480, 100), (440, 130)]
     @ drawPolygon [(520, 350), (580, 320), (600, 280), (580, 260), (560, 300), (520, 330)]
     @ drawCatFace"

definition drawShark :: "cmd list" where
  "drawShark =
     drawPolygon SHARK_SHAPE
     @ [Save,
        FillStyle (Solid (Css ''rgba(255, 255, 255, 0.8)'')),
        BeginPath, Arc 220 285 10 0 (pi * 2), Fill,
        FillStyle (Solid (Css ''rgba(30, 30, 60, 0.9)'')),
        BeginPath, Arc 222 285 5 0 (pi * 2), Fill,
        StrokeStyle (Solid (Css ''rgba(99, 102, 241, 0.5)'')),
        LineWidth 2]
     @ concat (map (\<lambda>i. [BeginPath, MoveTo (280 + real i * 20) 280,
                          LineTo (275 + real i * 20) 320, Stroke]) [0..<3])
     @ [Restore]"

definition drawTree :: "cmd list" where
  "drawTree =
     [FillStyle (LinearGradient 0 50 0 300
        [(0, Css ''rgba(34, 197, 94, 0.3)''), (1, Css ''rgba(22, 163, 74, 0.2)'')]),
      StrokeStyle (Solid (Css ''rgba(34, 197, 94, 0.7)''))]
     @ concat (map drawPolygon TREE_FOLIAGE)
     @ [FillStyle (LinearGradient 370 0 430 0
          [(0, Css ''rgba(139, 90, 43, 0.4)''), (0.5, Css ''rgba(160, 110, 60, 0.4)''),
           (1, Css ''rgba(139, 90, 43, 0.4)'')]),
        StrokeStyle (Solid (Css ''rgba(139, 90, 43, 0.7)'')),
        BeginPath, Rect 370 400 (430 - 370) (550 - 400), Fill, Stroke]"

definition drawShape :: "string \<Rightarrow> cmd list" where
  "drawShape shape =
     [Save,
      FillStyle (LinearGradient 0 0 CANVAS_WIDTH CANVAS_HEIGHT
        [(0, Css ''rgba(99, 102, 241, 0.15)''), (1, Css ''rgba(168, 85, 247, 0.15)'')]),
      StrokeStyle (Solid (Css ''rgba(99, 102, 241, 0.6)'')),
      LineWidth 3]
     @ (if shape = ''circle''
          then [BeginPath, Arc (CANVAS_WIDTH / 2) (CANVAS_HEIGHT / 2) 200 0 (pi * 2), Fill, Stroke]
        else if shape = ''square''
          then [BeginPath,
                Rect (CANVAS_WIDTH / 2 - 350 / 2) (CANVAS_HEIGHT / 2 - 350 / 2) 350 350,
                Fill, Stroke]
        else if shape = ''rectangle''
          then [BeginPath,
                Rect (CANVAS_WIDTH / 2 - 500 / 2) (CANVAS_HEIGHT / 2 - 300 / 2) 500 300,
                Fill, Stroke]
        else if shape = ''triangle'' then drawPolygon TRIANGLE_SHAPE
        else if shape = ''diamond''
          then [FillStyle (LinearGradient 200 60 600 540
                  [(0, Css ''rgba(59, 130, 246, 0.2)''), (0.5, Css ''rgba(139, 92, 246, 0.15)''),
                   (1, Css ''rgba(236, 72, 153, 0.2)'')]),
                StrokeStyle (Solid (Css ''rgba(139, 92, 246, 0.7)''))]
               @ drawPolygon DIAMOND_SHAPE
        else if shape = ''star''
          then [FillStyle (RadialGradient 400 300 0 400 300 220
                  [(0, Css ''rgba(251, 191, 36, 0.25)''), (1, Css ''rgba(245, 158, 11, 0.15)'')]),
                StrokeStyle (Solid (Css ''rgba(245, 158, 11, 0.7)''))]
               @ drawPolygon STAR_SHAPE
        else if shape = ''heart''
          then [FillStyle (RadialGradient 400 300 0 400 300 200
                  [(0, Css ''rgba(244, 63, 94, 0.25)''), (1, Css ''rgba(236, 72, 153, 0.15)'')]),
                StrokeStyle (Solid (Css ''rgba(244, 63, 94, 0.7)''))]
               @ drawPolygon HEART_SHAPE
        else if shape = ''cat'' then drawCat
        else if shape = ''shark'' then drawShark
        else if shape = ''tree'' then drawTree
        else [])
     @ [Restore]"

section \<open>Game module: rendering\<close>

text \<open>
  What one call of \<open>render\<close> draws, with \<open>now\<close> the value \<open>Date.now()\<close> has during
  the call: nothing without a context or a snapshot; \<open>None\<close> when \<open>drawMagnets\<close>
  throws (the calls made before the throw are not listed).
\<close>

definition renderDraws :: "real \<Rightarrow> state \<Rightarrow> cmd list option" where
  "renderDraws now s =
     (case canvas s of
        None \<Rightarrow> Some []
      | Some c \<Rightarrow>
          (case gameState s of
             None \<Rightarrow> Some []
           | Some gs \<Rightarrow>
               (case drawMagnets (players gs) (myPlayerId s) (magnets gs) of
                  None \<Rightarrow> None
                | Some ms \<Rightarrow>
                    Some ([ClearRect 0 0 (real (width c)) (real (height c))]
                          @ drawBackground c
                          @ drawShape (shapeType gs)
                          @ ms
                          @ drawAttractionLines now (gameState s)))))"

text \<open>
  What \<open>render\<close> does to the program state: it throws where \<open>drawMagnets\<close> throws,
  and otherwise sets or clears the class \<open>disabled\<close> of the canvas.
\<close>

definition render :: "state \<Rightarrow> outcome" where
  "render s =
     (case canvas s of
        None \<Rightarrow> Normal s
      | Some c \<Rightarrow>
          (case gameState s of
             None \<Rightarrow> Normal s
           | Some gs \<Rightarrow>
               (case drawMagnets (players gs) (myPlayerId s) (magnets gs) of
                  None \<Rightarrow> Abrupt s
                | Some ms \<Rightarrow> Normal (s\<lparr>canvas := Some (c\<lparr>disabled := \<not> canPlaceMagnet s\<rparr>)\<rparr>))))"

text \<open>
  \<open>updateState\<close>: \<open>gameState = newState; render(); updateUI()\<close>. \<open>updateUI\<close> only
  writes the roster and the turn indicator of the page.
\<close>

definition updateState :: "game_state \<Rightarrow> state \<Rightarrow> outcome" where
  "updateState newState s = render (s\<lparr>gameState := Some newState\<rparr>)"

definition setMyPlayerId :: "string \<Rightarrow> state \<Rightarrow> state" where
  "setMyPlayerId p s = s\<lparr>myPlayerId := Some p\<rparr>"

section \<open>Game module: animation\<close>

text \<open>
  Every use of \<open>requestAnimationFrame\<close> in the code is
  \<open>animationFrameId = requestAnimationFrame(animate)\<close>: the browser appends the
  callback to its list and returns a fresh positive handle.
\<close>

definition requestAnimationFrame :: "frame_callback \<Rightarrow> state \<Rightarrow> state" where
  "requestAnimationFrame cb s =
     s\<lparr>frameRequests := frameRequests s @ [(nextFrameHandle s, cb)],
       animationFrameId := Some (nextFrameHandle s),
       nextFrameHandle := nextFrameHandle s + 1\<rparr>"

definition cancelAnimationFrame :: "nat \<Rightarrow> state \<Rightarrow> state" where
  "cancelAnimationFrame h s = s\<lparr>frameRequests := filter (\<lambda>r. fst r \<noteq> h) (frameRequests s)\<rparr>"

text \<open>\<open>xs.find(P)\<close> followed by a write to the object found: the first match changes.\<close>

fun updateFirst :: "('a \<Rightarrow> bool) \<Rightarrow> ('a \<Rightarrow> 'a) \<Rightarrow> 'a list \<Rightarrow> 'a list" where
  "updateFirst P f [] = []"
| "updateFirst P f (x # xs) = (if P x then f x # xs else x # updateFirst P f xs)"

text \<open>\<open>if (onComplete) onComplete()\<close>.\<close>

definition runCallback :: "callback option \<Rightarrow> state \<Rightarrow> outcome" where
  "runCallback onComplete s =
     (case onComplete of
        None \<Rightarrow> Normal s
      | Some (UpdateState gs) \<Rightarrow> updateState gs s)"

definition animateMovements ::
  "real \<Rightarrow> movement list option \<Rightarrow> callback option \<Rightarrow> state \<Rightarrow> outcome" where
  "animateMovements startTime movements onComplete s =
     (case movements of
        None \<Rightarrow> runCallback onComplete s
      | Some ms \<Rightarrow>
          if length ms = 0 then runCallback onComplete s
          else Normal (requestAnimationFrame (MoveAnimate startTime onComplete)
                 (s\<lparr>animatingMagnets :=
                      map (\<lambda>m. \<lparr>anim_magnetId = magnetId m, fromPos = fromPosition m,
                                 toPos = toPosition m, progress = 0\<rparr>) ms\<rparr>)))"

text \<open>The progress of a movement at a frame, and the easing of \<open>animate\<close>.\<close>

definition moveProgress :: "real \<Rightarrow> real \<Rightarrow> real" where
  "moveProgress startTime currentTime = min 1 ((currentTime - startTime) / ANIMATION_DURATION)"

definition easeOut :: "real \<Rightarrow> real" where
  "easeOut p = 1 - (1 - p) ^ 3"

text \<open>The two writes \<open>magnet.position.x = ...; magnet.position.y = ...\<close>.\<close>

definition animatedPosition :: "anim \<Rightarrow> real \<Rightarrow> position \<Rightarrow> position" where
  "animatedPosition a easeProgress p =
     p\<lparr>xc := xc (fromPos a) + (xc (toPos a) - xc (fromPos a)) * easeProgress,
       yc := yc (fromPos a) + (yc (toPos a) - yc (fromPos a)) * easeProgress\<rparr>"

definition moveMagnet :: "real \<Rightarrow> magnet list \<Rightarrow> anim \<Rightarrow> magnet list" where
  "moveMagnet easeProgress ms a =
     updateFirst (\<lambda>m. magnet_id m = anim_magnetId a)
       (\<lambda>m. m\<lparr>position := animatedPosition a easeProgress (position m)\<rparr>) ms"

text \<open>
  The loop over \<open>animatingMagnets\<close> in \<open>animate\<close>. Without a snapshot the first pass
  throws at \<open>gameState.magnets\<close>, after it has written \<open>anim.progress\<close>.
\<close>

definition updatePositions :: "real \<Rightarrow> state \<Rightarrow> outcome" where
  "updatePositions easeProgress s =
     (case animatingMagnets s of
        [] \<Rightarrow> Normal s
      | a # as \<Rightarrow>
          (case gameState s of
             None \<Rightarrow> Abrupt (s\<lparr>animatingMagnets := a\<lparr>progress := easeProgress\<rparr> # as\<rparr>)
           | Some gs \<Rightarrow>
               Normal (s\<lparr>animatingMagnets :=
                          map (\<lambda>a. a\<lparr>progress := easeProgress\<rparr>) (animatingMagnets s),
                        gameState :=
                          Some (gs\<lparr>magnets :=
                            foldl (moveMagnet easeProgress) (magnets gs) (animatingMagnets s)\<rparr>)\<rparr>)))"

text \<open>The closure \<open>animate\<close> of \<open>animateMovements\<close>, called for a frame at \<open>currentTime\<close>.\<close>

definition moveAnimate :: "real \<Rightarrow> callback option \<Rightarrow> real \<Rightarrow> state \<Rightarrow> outcome" where
  "moveAnimate startTime onComplete currentTime s =
     (let p = moveProgress startTime currentTime;
          easeProgress = easeOut p
      in and_then (updatePositions easeProgress s) (\<lambda>s.
         and_then (render s) (\<lambda>s.
           if p < 1
           then Normal (requestAnimationFrame (MoveAnimate startTime onComplete) s)
           else runCallback onComplete (s\<lparr>animatingMagnets := [], animationFrameId := None\<rparr>))))"

text \<open>
  \<open>animateClumpCollection\<close>. With magnets to collect it reads \<open>gameState.players\<close> and
  \<open>canvas.width\<close>, and throws when either object is missing.
\<close>

definition animateClumpCollection ::
  "real \<Rightarrow> magnet list option \<Rightarrow> string \<Rightarrow> callback option \<Rightarrow> state \<Rightarrow> outcome" where
  "animateClumpCollection startTime clumpedMagnets collectorId onComplete s =
     (case clumpedMagnets of
        None \<Rightarrow> runCallback onComplete s
      | Some cl \<Rightarrow>
          if length cl = 0 then runCallback onComplete s
          else (case gameState s of
                  None \<Rightarrow> Abrupt s
                | Some gs \<Rightarrow>
                    (case canvas s of
                       None \<Rightarrow> Abrupt s
                     | Some c \<Rightarrow>
                         let playerIndex = findIndex (\<lambda>p. player_id p = collectorId) (players gs);
                             targetX = real (width c) + 50;
                             targetY = 50 + real_of_int playerIndex * 60;
                             animations = map (\<lambda>m. \<lparr>fly_magnet = m, startPos = position m,
                                                     fly_progress = 0\<rparr>) cl
                         in Normal (requestAnimationFrame
                              (ClumpAnimate startTime targetX targetY animations cl onComplete) s))))"

text \<open>The flying magnets of one frame of the collection, drawn with scale and fade.\<close>

fun drawFlying :: "player list \<Rightarrow> real \<Rightarrow> real \<Rightarrow> real \<Rightarrow> flying list \<Rightarrow> cmd list option" where
  "drawFlying ps easeProgress targetX targetY [] = Some []"
| "drawFlying ps easeProgress targetX targetY (a # as) =
     (case drawMagnetAt ps
             (xc (startPos a) + (targetX - xc (startPos a)) * easeProgress)
             (yc (startPos a) + (targetY - yc (startPos a)) * easeProgress)
             (playerId (fly_magnet a))
             (1 - easeProgress * 0.5)
             (1 - easeProgress) of
        None \<Rightarrow> None
      | Some c \<Rightarrow>
          (case drawFlying ps easeProgress targetX targetY as of
             None \<Rightarrow> None
           | Some cs \<Rightarrow> Some (c @ cs)))"

text \<open>What one frame of the collection draws before it decides whether to go on.\<close>

definition clumpDraws ::
  "real \<Rightarrow> real \<Rightarrow> real \<Rightarrow> flying list \<Rightarrow> magnet list \<Rightarrow> canvas_el \<Rightarrow> game_state
   \<Rightarrow> string option \<Rightarrow> cmd list option" where
  "clumpDraws easeProgress targetX targetY animations clumpedMagnets c gs me =
     (case drawEach (players gs) me
             (filter (\<lambda>m. magnet_id m \<notin> set (map magnet_id clumpedMagnets)) (magnets gs)) of
        None \<Rightarrow> None
      | Some remaining \<Rightarrow>
          (case drawFlying (players gs) easeProgress targetX targetY animations of
             None \<Rightarrow> None
           | Some fl \<Rightarrow>
               Some ([ClearRect 0 0 (real (width c)) (real (height c))]
                     @ drawBackground c @ drawShape (shapeType gs) @ remaining @ fl)))"

text \<open>The closure \<open>animate\<close> of \<open>animateClumpCollection\<close> (\<open>duration = 600\<close>).\<close>

definition clumpAnimate ::
  "real \<Rightarrow> real \<Rightarrow> real \<Rightarrow> flying list \<Rightarrow> magnet list \<Rightarrow> callback option \<Rightarrow> real \<Rightarrow> state
   \<Rightarrow> outcome" where
  "clumpAnimate startTime targetX targetY animations clumpedMagnets onComplete currentTime s =
     (let p = min 1 ((currentTime - startTime) / 600);
          easeProgress = p * p
      in case canvas s of
           None \<Rightarrow> Abrupt s
         | Some c \<Rightarrow>
             (case gameState s of
                None \<Rightarrow> Abrupt s
              | Some gs \<Rightarrow>
                  (case clumpDraws easeProgress targetX targetY animations clumpedMagnets c gs
                          (myPlayerId s) of
                     None \<Rightarrow> Abrupt s
                   | Some ds \<Rightarrow>
                       if p < 1
                       then Normal (requestAnimationFrame
                              (ClumpAnimate startTime targetX targetY animations clumpedMagnets
                                 onComplete) s)
                       else and_then (render (s\<lparr>animationFrameId := None\<rparr>))
                              (runCallback onComplete))))"

text \<open>
  One animation frame of the browser at time \<open>t\<close>: the callbacks requested before the
  frame run in order, each with \<open>t\<close>; a callback that throws does not stop the others.
\<close>

fun runFrameCallback :: "frame_callback \<Rightarrow> real \<Rightarrow> state \<Rightarrow> outcome" where
  "runFrameCallback (MoveAnimate startTime onComplete) t s = moveAnimate startTime onComplete t s"
| "runFrameCallback (ClumpAnimate startTime targetX targetY animations clumped onComplete) t s =
     clumpAnimate startTime targetX targetY animations clumped onComplete t s"

fun runFrameCallbacks :: "real \<Rightarrow> (nat \<times> frame_callback) list \<Rightarrow> state \<Rightarrow> state" where
  "runFrameCallbacks t [] s = s"
| "runFrameCallbacks t (r # rs) s = runFrameCallbacks t rs (state_of (runFrameCallback (snd r) t s))"

definition animationFrame :: "real \<Rightarrow> state \<Rightarrow> state" where
  "animationFrame t s = runFrameCallbacks t (frameRequests s) (s\<lparr>frameRequests := []\<rparr>)"

text \<open>\<open>reset\<close>; a handle is truthy when it is not 0. Clearing the canvas changes no state.\<close>

definition reset :: "state \<Rightarrow> state" where
  "reset s =
     (let s1 = s\<lparr>gameState := None, myPlayerId := None, animatingMagnets := []\<rparr>
      in case animationFrameId s1 of
           None \<Rightarrow> s1
         | Some h \<Rightarrow> if h = 0 then s1 else (cancelAnimationFrame h s1)\<lparr>animationFrameId := None\<rparr>)"

section \<open>Entry point: the server messages\<close>

text \<open>A number inside a template string, for whole numbers.\<close>

function showNat :: "nat \<Rightarrow> string" where
  "showNat n =
     (if n < 10 then [''0123456789'' ! n]
      else showNat (n div 10) @ [''0123456789'' ! (n mod 10)])"
  by pat_completeness auto
termination
  by (relation "measure id") auto

declare showNat.simps [simp del]

definition showInt :: "int \<Rightarrow> string" where
  "showInt i = (if i < 0 then ''-'' @ showNat (nat (- i)) else showNat (nat i))"

text \<open>\<open>showScreen\<close> hides the three screens and shows the one named, if it is one of them.\<close>

definition showScreen :: "string \<Rightarrow> state \<Rightarrow> state" where
  "showScreen scr s =
     s\<lparr>screen := (if scr = ''lobby'' \<or> scr = ''waiting'' \<or> scr = ''game'' then scr else [])\<rparr>"

text \<open>
  \<open>Shapes.generateMask\<close> paints the mask canvas; which pixels the browser fills for a
  shape is the parameter \<open>paint\<close> (shape type and old pixels to new pixels).
\<close>

definition generateMask ::
  "(string \<Rightarrow> (int \<Rightarrow> int \<Rightarrow> nat) \<Rightarrow> (int \<Rightarrow> int \<Rightarrow> nat)) \<Rightarrow> string \<Rightarrow> state \<Rightarrow> state" where
  "generateMask paint shape s =
     (case maskCtx s of
        None \<Rightarrow> s
      | Some pixel \<Rightarrow> s\<lparr>maskCtx := Some (paint shape pixel)\<rparr>)"

definition startGame ::
  "(string \<Rightarrow> (int \<Rightarrow> int \<Rightarrow> nat) \<Rightarrow> (int \<Rightarrow> int \<Rightarrow> nat)) \<Rightarrow> game_state \<Rightarrow> state \<Rightarrow> outcome" where
  "startGame paint gs s =
     and_then (updateState gs (showScreen ''game'' (generateMask paint (shapeType gs) s))) (\<lambda>s.
       Normal (showMessage
         ''Game started! Place magnets carefully - they attract each other!'' ''success'' s))"

definition handleSessionCreated :: "string \<Rightarrow> game_state \<Rightarrow> state \<Rightarrow> outcome" where
  "handleSessionCreated sid gs s =
     (let s1 = s\<lparr>currentSessionId := Some sid\<rparr>;
          s2 = (case players gs of [] \<Rightarrow> s1 | myPlayer # _ \<Rightarrow> setMyPlayerId (player_id myPlayer) s1)
      in and_then (updateState gs s2) (\<lambda>s.
           Normal (showMessage (''Session created: '' @ sid) ''success''
                     (showScreen ''waiting'' s))))"

definition handleSessionJoined ::
  "(string \<Rightarrow> (int \<Rightarrow> int \<Rightarrow> nat) \<Rightarrow> (int \<Rightarrow> int \<Rightarrow> nat)) \<Rightarrow> game_state \<Rightarrow> state \<Rightarrow> outcome" where
  "handleSessionJoined paint gs s =
     (let s1 = s\<lparr>currentSessionId := Some (sessionId gs)\<rparr>;
          s2 = (if players gs = [] then s1 else setMyPlayerId (player_id (last (players gs))) s1)
      in and_then (updateState gs s2) (\<lambda>s.
         and_then (if status gs = ''playing'' then startGame paint gs s
                   else Normal (showScreen ''waiting'' s)) (\<lambda>s.
           Normal (showMessage ''Joined session successfully!'' ''success'' s))))"

definition handlePlayerJoined ::
  "(string \<Rightarrow> (int \<Rightarrow> int \<Rightarrow> nat) \<Rightarrow> (int \<Rightarrow> int \<Rightarrow> nat)) \<Rightarrow> game_state \<Rightarrow> player \<Rightarrow> state
   \<Rightarrow> outcome" where
  "handlePlayerJoined paint gs p s =
     and_then (updateState gs s) (\<lambda>s.
       let s1 = showMessage (name p @ '' joined the game'') ''info'' s
       in if status gs = ''playing'' then startGame paint gs s1 else Normal s1)"

definition handlePlayerLeft :: "game_state \<Rightarrow> string \<Rightarrow> state \<Rightarrow> outcome" where
  "handlePlayerLeft gs leftId s =
     and_then (updateState gs s) (\<lambda>s.
       let who = (case find (\<lambda>p. player_id p = leftId) (players gs) of
                    None \<Rightarrow> ''A player''
                  | Some leftPlayer \<Rightarrow> if name leftPlayer = [] then ''A player'' else name leftPlayer)
       in Normal (showMessage (who @ '' left the game'') ''warning'' s))"

definition handleGameStarted ::
  "(string \<Rightarrow> (int \<Rightarrow> int \<Rightarrow> nat) \<Rightarrow> (int \<Rightarrow> int \<Rightarrow> nat)) \<Rightarrow> game_state \<Rightarrow> state \<Rightarrow> outcome" where
  "handleGameStarted paint gs s = startGame paint gs s"

text \<open>
  \<open>handleMagnetPlaced\<close>. \<open>stateBeforeMovement\<close> is the deep copy of the snapshot with,
  for each movement in turn, the first magnet of that id put at \<open>fromPosition\<close>.
\<close>

definition resetToOrigin :: "magnet list \<Rightarrow> movement \<Rightarrow> magnet list" where
  "resetToOrigin ms mv =
     updateFirst (\<lambda>m. magnet_id m = magnetId mv) (\<lambda>m. m\<lparr>position := fromPosition mv\<rparr>) ms"

definition stateBeforeMovement :: "game_state \<Rightarrow> movement list \<Rightarrow> game_state" where
  "stateBeforeMovement gs movs = gs\<lparr>magnets := foldl resetToOrigin (magnets gs) movs\<rparr>"

definition handleMagnetPlaced ::
  "real \<Rightarrow> game_state \<Rightarrow> magnet \<Rightarrow> movement list option \<Rightarrow> state \<Rightarrow> outcome" where
  "handleMagnetPlaced perfNow gs mg movements s =
     (let placer = find (\<lambda>p. player_id p = playerId mg) (players gs);
          direct =
            and_then (updateState gs s) (\<lambda>s.
              Normal (case placer of
                        None \<Rightarrow> s
                      | Some p \<Rightarrow>
                          if Some (player_id p) \<noteq> myPlayerId s
                          then showMessage (name p @ '' placed a magnet'') ''info'' s
                          else s))
      in case movements of
           None \<Rightarrow> direct
         | Some movs \<Rightarrow>
             if length movs > 0
             then and_then (updateState (stateBeforeMovement gs movs) s) (\<lambda>s.
                    animateMovements perfNow movements (Some (UpdateState gs))
                      (case placer of
                         None \<Rightarrow> s
                       | Some p \<Rightarrow>
                           if Some (player_id p) \<noteq> myPlayerId s
                           then showMessage
                                  (name p @ '' placed a magnet - magnets attracting!'') ''info'' s
                           else showMessage ''Magnets are attracting!'' ''info'' s))
             else direct)"

definition handleMagnetsClumped ::
  "real \<Rightarrow> game_state \<Rightarrow> magnet list option \<Rightarrow> string \<Rightarrow> int \<Rightarrow> state \<Rightarrow> outcome" where
  "handleMagnetsClumped perfNow gs clumpedMagnets collectorPlayerId magnetsCollected s =
     (let collector = find (\<lambda>p. player_id p = collectorPlayerId) (players gs);
          isMe = (Some collectorPlayerId = myPlayerId s);
          s1 = (if isMe
                then showMessage
                       (''You collected '' @ showInt magnetsCollected @ '' magnets from clumping!'')
                       ''warning'' s
                else (case collector of
                        None \<Rightarrow> s
                      | Some c \<Rightarrow>
                          showMessage
                            (name c @ '' collected '' @ showInt magnetsCollected
                               @ '' magnets from clumping!'')
                            ''warning'' s))
      in animateClumpCollection perfNow clumpedMagnets collectorPlayerId (Some (UpdateState gs)) s1)"

definition handlePlacementInvalid :: "string \<Rightarrow> state \<Rightarrow> outcome" where
  "handlePlacementInvalid reason s = Normal (showMessage reason ''error'' s)"

definition handleTurnChanged :: "string option \<Rightarrow> state \<Rightarrow> outcome" where
  "handleTurnChanged turn s =
     and_then (case gameState s of
                 None \<Rightarrow> Normal s
               | Some gs \<Rightarrow> updateState (gs\<lparr>currentTurnPlayerId := turn\<rparr>) s) (\<lambda>s.
       Normal (if turn = myPlayerId s
               then showMessage ''It's your turn!'' ''success'' s
               else s))"

text \<open>
  \<open>handleGameOver\<close>. \<open>!currentSessionId\<close> holds for \<open>null\<close> and for the empty string.
  The winner text ends with the party emoji U+1F389, here its four UTF-8 bytes.
\<close>

definition handleGameOver :: "string option \<Rightarrow> string \<Rightarrow> state \<Rightarrow> outcome" where
  "handleGameOver winner winnerName s =
     (if currentSessionId s = None \<or> currentSessionId s = Some []
      then Normal s
      else Normal (s\<lparr>winnerNameText :=
                       (if winner = myPlayerId s
                        then ''You Win! '' @ [CHR 0xF0, CHR 0x9F, CHR 0x8E, CHR 0x89]
                        else winnerName @ '' Wins!''),
                     gameOverModalHidden := False\<rparr>))"

definition handleError :: "string \<Rightarrow> state \<Rightarrow> outcome" where
  "handleError msg s = Normal (showMessage msg ''error'' s)"

text \<open>
  \<open>handleServerMessage\<close>; \<open>perfNow\<close> is what \<open>performance.now()\<close> returns while the
  message is handled.
\<close>

fun handleServerMessage ::
  "(string \<Rightarrow> (int \<Rightarrow> int \<Rightarrow> nat) \<Rightarrow> (int \<Rightarrow> int \<Rightarrow> nat)) \<Rightarrow> real \<Rightarrow> message \<Rightarrow> state \<Rightarrow> outcome"
where
  "handleServerMessage paint perfNow (SESSION_CREATED sid gs) s = handleSessionCreated sid gs s"
| "handleServerMessage paint perfNow (SESSION_JOINED gs) s = handleSessionJoined paint gs s"
| "handleServerMessage paint perfNow (PLAYER_JOINED gs p) s = handlePlayerJoined paint gs p s"
| "handleServerMessage paint perfNow (PLAYER_LEFT gs leftId) s = handlePlayerLeft gs leftId s"
| "handleServerMessage paint perfNow (GAME_STARTED gs) s = handleGameStarted paint gs s"
| "handleServerMessage paint perfNow (MAGNET_PLACED gs mg movements) s =
     handleMagnetPlaced perfNow gs mg movements s"
| "handleServerMessage paint perfNow (PLACEMENT_INVALID reason) s = handlePlacementInvalid reason s"
| "handleServerMessage paint perfNow (MAGNETS_CLUMPED gs clumped collector n) s =
     handleMagnetsClumped perfNow gs clumped collector n s"
| "handleServerMessage paint perfNow (TURN_CHANGED turn) s = handleTurnChanged turn s"
| "handleServerMessage paint perfNow (GAME_OVER winner winnerName) s =
     handleGameOver winner winnerName s"
| "handleServerMessage paint perfNow (ERROR msg) s = handleError msg s"
| "handleServerMessage paint perfNow (OTHER tag) s = Normal s"

text \<open>
  \<open>WebSocketClient.handleMessage\<close> calls the handler inside \<open>try\<close>: a throw is logged
  and the state stays as the handler left it.
\<close>

definition handleMessage ::
  "(string \<Rightarrow> (int \<Rightarrow> int \<Rightarrow> nat) \<Rightarrow> (int \<Rightarrow> int \<Rightarrow> nat)) \<Rightarrow> real \<Rightarrow> message \<Rightarrow> state \<Rightarrow> state"
where
  "handleMessage paint perfNow msg s = state_of (handleServerMessage paint perfNow msg s)"

subsection \<open>Leaving\<close>

definition resetToLobby :: "state \<Rightarrow> state" where
  "resetToLobby s =
     showScreen ''lobby'' ((reset (s\<lparr>currentSessionId := None\<rparr>))\<lparr>gameOverModalHidden := True\<rparr>)"

definition handleLeaveSession :: "state \<Rightarrow> state" where
  "handleLeaveSession s =
     resetToLobby (leaveSession (s\<lparr>currentSessionId := None, gameOverModalHidden := True\<rparr>))"

definition handleBackToLobby :: "state \<Rightarrow> state" where
  "handleBackToLobby s =
     resetToLobby (leaveSession (s\<lparr>currentSessionId := None, gameOverModalHidden := True\<rparr>))"

section \<open>Notions used in the properties\<close>

text \<open>Every magnet of the list is owned by a player of the roster.\<close>

definition ownersKnown :: "player list \<Rightarrow> magnet list \<Rightarrow> bool" where
  "ownersKnown ps ms = list_all (\<lambda>m. playerId m \<in> set (map player_id ps)) ms"

text \<open>
  An animation is in flight while one of its frame callbacks is waiting for the next
  frame: all frame requests of this program are animation steps.
\<close>

definition animationInFlight :: "state \<Rightarrow> bool" where
  "animationInFlight s = (frameRequests s \<noteq> [])"

text \<open>The guard of \<open>handleGameOver\<close>: \<open>currentSessionId\<close> is truthy.\<close>

definition sessionActive :: "state \<Rightarrow> bool" where
  "sessionActive s = (currentSessionId s \<noteq> None \<and> currentSessionId s \<noteq> Some [])"

text \<open>
  The position of the magnet with identifier \<open>i\<close> in a list of magnets: that of the
  first magnet of that identifier, the one \<open>find\<close> returns.
\<close>

definition magnetPosition :: "string \<Rightarrow> magnet list \<Rightarrow> position option" where
  "magnetPosition i ms = map_option position (find (\<lambda>m. magnet_id m = i) ms)"



text \<open>No two magnets of the snapshot are within the clump threshold of each other.\<close>

definition noClumpedPair :: "state \<Rightarrow> bool" where
  "noClumpedPair s =
     (case gameState s of
        None \<Rightarrow> True
      | Some gs \<Rightarrow> list_all (\<lambda>(m1, m2). CLUMP_THRESHOLD < distance m1 m2) (magnetPairs (magnets gs)))"

subsection \<open>A game in progress\<close>

text \<open>
  \<open>Game.init\<close> with the game canvas \<open>c\<close>: it keeps the canvas and its context, and
  \<open>Shapes.initMaskCanvas\<close> keeps the context of the mask canvas, whose pixels are
  still unpainted.
\<close>

definition init :: "canvas_el \<Rightarrow> state \<Rightarrow> state" where
  "init c s = s\<lparr>canvas := Some c, maskCtx := Some (\<lambda>x y. 0)\<rparr>"

text \<open>
  The variables as the modules declare them, the socket open, and a page with an empty
  message list, the modal hidden and the lobby shown.
\<close>

definition beforeInit :: state where
  "beforeInit =
     \<lparr>gameState = None, myPlayerId = None, canvas = None, animatingMagnets = [],
      animationFrameId = None, maskCtx = None, currentSessionId = None,
      gameMessages = Some [], gameOverModalHidden = True, winnerNameText = [],
      screen = ''lobby'', frameRequests = [], nextFrameHandle = 1, socketOpen = True,
      sent = []\<rparr>"

text \<open>
  A browser that paints the disc of the circle shape white and everything else black,
  as the painter of the examples.
\<close>

definition paintDisc :: "string \<Rightarrow> (int \<Rightarrow> int \<Rightarrow> nat) \<Rightarrow> (int \<Rightarrow> int \<Rightarrow> nat)" where
  "paintDisc shape pixel =
     (\<lambda>x y. if shape = ''circle'' \<and> (x - 400) * (x - 400) + (y - 300) * (y - 300) \<le> 200 * 200
            then 255 else 0)"

definition alice :: player where
  "alice = \<lparr>player_id = ''A'', name = ''Alice'', connected = True, remainingMagnets = 5\<rparr>"

definition bob :: player where
  "bob = \<lparr>player_id = ''B'', name = ''Bob'', connected = True, remainingMagnets = 5\<rparr>"

definition magnetA :: magnet where
  "magnetA = \<lparr>magnet_id = ''m1'', playerId = ''A'', position = \<lparr>xc = 400, yc = 300\<rparr>\<rparr>"

definition magnetB :: magnet where
  "magnetB = \<lparr>magnet_id = ''m2'', playerId = ''B'', position = \<lparr>xc = 420, yc = 300\<rparr>\<rparr>"

definition snapshot :: game_state where
  "snapshot =
     \<lparr>sessionId = ''ABCD'', shapeType = ''circle'', status = ''playing'',
      players = [alice, bob], magnets = [magnetA, magnetB],
      currentTurnPlayerId = Some ''A''\<rparr>"

text \<open>
  Alice's client during the game, on her turn, with nothing animating and the mask of
  the circle painted.
\<close>

definition inPlay :: state where
  "inPlay =
     (generateMask paintDisc ''circle''
        (init \<lparr>width = 800, height = 600, disabled = False\<rparr> beforeInit))
       \<lparr>gameState := Some snapshot, myPlayerId := Some ''A'',
        currentSessionId := Some ''ABCD'', screen := ''game''\<rparr>"

text \<open>The same game with Bob's magnet a hundred pixels away from Alice's.\<close>

definition apart :: state where
  "apart = inPlay\<lparr>gameState :=
     Some (snapshot\<lparr>magnets := [magnetA, magnetB\<lparr>position := \<lparr>xc = 500, yc = 300\<rparr>\<rparr>]\<rparr>)\<rparr>"





text \<open>
  A placement message: Bob's magnet is pulled from \<open>(420, 300)\<close> to \<open>(410, 300)\<close>;
  \<open>settled\<close> is the snapshot the message carries, \<open>movingB\<close> the entry of
  \<open>animatingMagnets\<close> made from the movement.
\<close>

definition movementB :: movement where
  "movementB =
     \<lparr>magnetId = ''m2'', fromPosition = \<lparr>xc = 420, yc = 300\<rparr>,
      toPosition = \<lparr>xc = 410, yc = 300\<rparr>\<rparr>"

definition movingB :: anim where
  "movingB =
     \<lparr>anim_magnetId = ''m2'', fromPos = \<lparr>xc = 420, yc = 300\<rparr>,
      toPos = \<lparr>xc = 410, yc = 300\<rparr>, progress = 0\<rparr>"

definition settled :: game_state where
  "settled =
     snapshot\<lparr>magnets := [magnetA, magnetB\<lparr>position := \<lparr>xc = 410, yc = 300\<rparr>\<rparr>],
              currentTurnPlayerId := Some ''B''\<rparr>"

definition firstPlacement :: message where
  "firstPlacement = MAGNET_PLACED settled magnetB (Some [movementB])"

text \<open>A second placement message, whose movement pulls Alice's magnet.\<close>

definition movementA :: movement where
  "movementA =
     \<lparr>magnetId = ''m1'', fromPosition = \<lparr>xc = 400, yc = 300\<rparr>,
      toPosition = \<lparr>xc = 405, yc = 300\<rparr>\<rparr>"

definition movingA :: anim where
  "movingA =
     \<lparr>anim_magnetId = ''m1'', fromPos = \<lparr>xc = 400, yc = 300\<rparr>,
      toPos = \<lparr>xc = 405, yc = 300\<rparr>, progress = 0\<rparr>"

definition settledAgain :: game_state where
  "settledAgain =
     settled\<lparr>magnets := [magnetA\<lparr>position := \<lparr>xc = 405, yc = 300\<rparr>\<rparr>,
                          magnetB\<lparr>position := \<lparr>xc = 410, yc = 300\<rparr>\<rparr>],
             currentTurnPlayerId := Some ''A''\<rparr>"

definition secondPlacement :: message where
  "secondPlacement = MAGNET_PLACED settledAgain magnetA (Some [movementA])"

text \<open>The collection message of the example: Bob collects both magnets.\<close>

definition collection :: message where
  "collection = MAGNETS_CLUMPED (snapshot\<lparr>magnets := []\<rparr>) (Some [magnetA, magnetB]) ''B'' 2"

section \<open>Properties\<close>

subsection \<open>When drawing throws\<close>

lemma findIndexFrom_neg:
  "0 \<le> i \<Longrightarrow> (findIndexFrom i P xs < 0) = (\<not> list_ex P xs)"
  by (induction xs arbitrary: i) auto

lemma findIndex_neg: "(findIndex P xs < 0) = (\<not> list_ex P xs)"
  by (simp add: findIndex_def findIndexFrom_neg)

lemma drawMagnetAt_None:
  "(drawMagnetAt ps x y owner scale alpha = None) = (owner \<notin> set (map player_id ps))"
  by (auto simp: drawMagnetAt_def playerColour_def findIndex_neg list_ex_iff Let_def)

lemma drawMagnet_None:
  "(drawMagnet ps me m = None) = (playerId m \<notin> set (map player_id ps))"
proof -
  have "(drawMagnet ps me m = None)
        = (drawMagnetAt ps (xc (position m)) (yc (position m)) (playerId m) 1 1 = None)"
    by (simp add: drawMagnet_def split: option.splits)
  then show ?thesis
    by (simp only: drawMagnetAt_None)
qed

lemma drawEach_None: "(drawEach ps me ms = None) = (\<not> ownersKnown ps ms)"
proof (induction ms)
  case Nil
  show ?case by (simp add: ownersKnown_def)
next
  case (Cons m ms)
  show ?case
  proof (cases "drawMagnet ps me m")
    case None
    then show ?thesis
      using drawMagnet_None[of ps me m] by (simp add: ownersKnown_def)
  next
    case (Some c)
    then have "playerId m \<in> set (map player_id ps)"
      using drawMagnet_None[of ps me m] by auto
    then show ?thesis
      using Some Cons.IH by (cases "drawEach ps me ms") (simp_all add: ownersKnown_def)
  qed
qed

text \<open>\<open>render\<close> throws exactly on a snapshot with a magnet whose owner is unknown.\<close>

lemma render_eq:
  "render s =
     (case canvas s of
        None \<Rightarrow> Normal s
      | Some c \<Rightarrow>
          (case gameState s of
             None \<Rightarrow> Normal s
           | Some gs \<Rightarrow>
               if ownersKnown (players gs) (magnets gs)
               then Normal (s\<lparr>canvas := Some (c\<lparr>disabled := \<not> canPlaceMagnet s\<rparr>)\<rparr>)
               else Abrupt s))"
  using drawEach_None[of "players (the (gameState s))" "myPlayerId s" "magnets (the (gameState s))"]
  by (auto simp: render_def drawMagnets_def split: option.splits)

subsection \<open>The input gate\<close>

text \<open>
  \<open>canPlaceMagnet\<close> is true exactly when there is a snapshot with status
  \<open>playing\<close> whose turn is the local player's, \<open>animatingMagnets\<close> is empty, and the
  first player of the roster with the local identifier has magnets left.
\<close>

lemma canPlaceMagnet_iff:
  "canPlaceMagnet s =
     (\<exists>gs. gameState s = Some gs \<and> status gs = ''playing''
        \<and> currentTurnPlayerId gs = myPlayerId s
        \<and> animatingMagnets s = []
        \<and> (\<exists>p. find (\<lambda>p. Some (player_id p) = myPlayerId s) (players gs) = Some p
               \<and> 0 < remainingMagnets p))"
  by (auto simp: canPlaceMagnet_def split: option.splits)

text \<open>
  C2. \<open>canPlaceMagnet\<close> tests \<open>animatingMagnets\<close>, which only \<open>animateMovements\<close> fills.
  While the collection animation started by a \<open>MAGNETS_CLUMPED\<close> message is in flight
  (its frame callback is requested, \<open>animationFrameId\<close> is set), the list is empty: on
  Alice's turn \<open>canPlaceMagnet\<close> is true, and her click inside the shape sends a
  placement.
\<close>

theorem placing_allowed_during_collection:
  "animationFrameId (handleMessage paintDisc 0 collection inPlay) = Some 1
   \<and> animationInFlight (handleMessage paintDisc 0 collection inPlay)
   \<and> animatingMagnets (handleMessage paintDisc 0 collection inPlay) = []
   \<and> canPlaceMagnet (handleMessage paintDisc 0 collection inPlay)
   \<and> sent (handleCanvasClick \<lparr>xc = 400, yc = 300\<rparr> (handleMessage paintDisc 0 collection inPlay))
       = [PLACE_MAGNET \<lparr>xc = 400, yc = 300\<rparr>]"
  by (simp add: handleMessage_def collection_def handleMagnetsClumped_def
      animateClumpCollection_def requestAnimationFrame_def showMessage_def canPlaceMagnet_def
      inPlay_def generateMask_def init_def paintDisc_def beforeInit_def snapshot_def alice_def
      bob_def Let_def animationInFlight_def handleCanvasClick_def attemptPlacement_def
      isInsideShape_def placeMagnet_def send_def)

subsection \<open>Rejections and notices\<close>

text \<open>
  C5. Handling a \<open>PLACEMENT_INVALID\<close> message returns normally and changes no field of
  the state but the message list of the page, where the reason is put in front as an
  error (if the page has the list): the snapshot, the local player, the animation
  state and everything else are as before.
\<close>

theorem placement_invalid_keeps_state:
  "handleServerMessage paint perfNow (PLACEMENT_INVALID reason) s =
     Normal (s\<lparr>gameMessages :=
                 map_option (\<lambda>ms. take 5 ((reason, ''error'') # ms)) (gameMessages s)\<rparr>)"
  by (cases "gameMessages s") (simp_all add: handlePlacementInvalid_def showMessage_def)

text \<open>
  C10. With no mask context (\<open>initMaskCanvas\<close> was never called) \<open>isInsideShape\<close> is
  false at every point; \<open>attemptPlacement\<close> at any coordinates then only puts the
  warning in front of the message list and sends nothing, and neither does a click.
\<close>

theorem uninitialised_mask_rejects:
  assumes "maskCtx s = None"
  shows "(\<forall>x y. \<not> isInsideShape s x y)
    \<and> attemptPlacement coords s =
        s\<lparr>gameMessages := map_option
            (\<lambda>ms. take 5 ((''Cannot place magnet outside the shape!'', ''warning'') # ms))
            (gameMessages s)\<rparr>
    \<and> sent (attemptPlacement coords s) = sent s
    \<and> sent (handleCanvasClick coords s) = sent s"
  using assms
  by (cases "gameMessages s")
     (simp_all add: isInsideShape_def attemptPlacement_def showMessage_def handleCanvasClick_def)

theorem uninitialised_mask_rejects_witness:
  "maskCtx (inPlay\<lparr>maskCtx := None\<rparr>) = None
   \<and> \<not> isInsideShape (inPlay\<lparr>maskCtx := None\<rparr>) 400 300
   \<and> gameMessages (attemptPlacement \<lparr>xc = 400, yc = 300\<rparr> (inPlay\<lparr>maskCtx := None\<rparr>))
       = Some [(''Cannot place magnet outside the shape!'', ''warning'')]
   \<and> sent (attemptPlacement \<lparr>xc = 400, yc = 300\<rparr> (inPlay\<lparr>maskCtx := None\<rparr>)) = []
   \<and> sent (handleCanvasClick \<lparr>xc = 400, yc = 300\<rparr> (inPlay\<lparr>maskCtx := None\<rparr>)) = []"
proof -
  have h: "maskCtx (inPlay\<lparr>maskCtx := None\<rparr>) = None" by simp
  show ?thesis
    using uninitialised_mask_rejects[OF h, of "\<lparr>xc = 400, yc = 300\<rparr>"]
    by (simp add: inPlay_def generateMask_def init_def beforeInit_def)
qed

text \<open>
  C9. A \<open>GAME_OVER\<close> message shows the modal with the winner text when the session
  identifier is set, and changes nothing otherwise; so from a hidden modal, the modal is
  visible afterwards exactly when the session was active. After \<open>handleLeaveSession\<close>
  the identifier is cleared and the modal hidden, and a \<open>GAME_OVER\<close> that arrives then
  leaves the whole state as it is.
\<close>

theorem game_over_guard:
  "handleServerMessage paint perfNow (GAME_OVER winner winnerName) s =
     (if sessionActive s
      then Normal (s\<lparr>winnerNameText :=
                       (if winner = myPlayerId s
                        then ''You Win! '' @ [CHR 0xF0, CHR 0x9F, CHR 0x8E, CHR 0x89]
                        else winnerName @ '' Wins!''),
                     gameOverModalHidden := False\<rparr>)
      else Normal s)
   \<and> (gameOverModalHidden s \<longrightarrow>
        (\<not> gameOverModalHidden (handleMessage paint perfNow (GAME_OVER winner winnerName) s))
        = sessionActive s)
   \<and> \<not> sessionActive (handleLeaveSession s)
   \<and> gameOverModalHidden (handleLeaveSession s)
   \<and> handleMessage paint perfNow (GAME_OVER winner winnerName) (handleLeaveSession s)
       = handleLeaveSession s"
  by (simp add: handleGameOver_def handleMessage_def handleLeaveSession_def resetToLobby_def
      showScreen_def reset_def Let_def cancelAnimationFrame_def leaveSession_def send_def
      sessionActive_def split: option.splits)

theorem game_over_guard_witness:
  "gameOverModalHidden inPlay
   \<and> sessionActive inPlay
   \<and> \<not> gameOverModalHidden (handleMessage paintDisc 0 (GAME_OVER (Some ''A'') ''Alice'') inPlay)
   \<and> winnerNameText (handleMessage paintDisc 0 (GAME_OVER (Some ''A'') ''Alice'') inPlay)
       = ''You Win! '' @ [CHR 0xF0, CHR 0x9F, CHR 0x8E, CHR 0x89]
   \<and> handleMessage paintDisc 0 (GAME_OVER (Some ''A'') ''Alice'') (handleLeaveSession inPlay)
       = handleLeaveSession inPlay"
  using game_over_guard[of paintDisc 0 "Some ''A''" "''Alice''" inPlay]
  by (simp add: inPlay_def generateMask_def init_def beforeInit_def sessionActive_def handleMessage_def)

subsection \<open>Turn changes\<close>

text \<open>
  With a magnet whose owner is unknown and a canvas to draw on, \<open>render\<close> throws inside
  \<open>updateState\<close>: the turn is patched, and the notice is not reached.
\<close>

lemma turn_changed_orphan:
  assumes "gameState s = Some gs" and "\<not> ownersKnown (players gs) (magnets gs)"
    and "canvas s \<noteq> None"
  shows "handleServerMessage paint perfNow (TURN_CHANGED turn) s
     = Abrupt (s\<lparr>gameState := Some (gs\<lparr>currentTurnPlayerId := turn\<rparr>)\<rparr>)"
  using assms by (auto simp: handleTurnChanged_def updateState_def render_eq)

text \<open>
  C6. With a snapshot present (whose magnets all have their owner in the roster, so
  that drawing it does not throw), a \<open>TURN_CHANGED\<close> message returns normally; the
  snapshot afterwards is the old one with only \<open>currentTurnPlayerId\<close> replaced; the
  notice "It's your turn!" is put in front of the message list exactly when the new
  turn is the local player's; and apart from the snapshot, the message list and the
  class of the canvas that \<open>render\<close> sets, the state is unchanged.
\<close>

theorem turn_changed_patches_turn_only:
  assumes "gameState s = Some gs" and "ownersKnown (players gs) (magnets gs)"
  shows "\<exists>s'. handleServerMessage paint perfNow (TURN_CHANGED turn) s = Normal s'
     \<and> gameState s' = Some (gs\<lparr>currentTurnPlayerId := turn\<rparr>)
     \<and> gameMessages s' =
         (if turn = myPlayerId s
          then map_option (\<lambda>ms. take 5 ((''It's your turn!'', ''success'') # ms)) (gameMessages s)
          else gameMessages s)
     \<and> s' = s\<lparr>gameState := gameState s', canvas := canvas s', gameMessages := gameMessages s'\<rparr>"
  using assms
  by (cases "gameMessages s"; cases "canvas s")
     (simp_all add: handleTurnChanged_def updateState_def render_eq showMessage_def)

theorem turn_changed_patches_turn_only_witness:
  "gameState inPlay = Some snapshot
   \<and> ownersKnown (players snapshot) (magnets snapshot)
   \<and> (\<exists>s'. handleServerMessage paintDisc 0 (TURN_CHANGED (Some ''B'')) inPlay = Normal s'
         \<and> gameState s' = Some (snapshot\<lparr>currentTurnPlayerId := Some ''B''\<rparr>)
         \<and> gameMessages s' = Some [])
   \<and> (\<exists>s'. handleServerMessage paintDisc 0 (TURN_CHANGED (Some ''A'')) inPlay = Normal s'
         \<and> gameState s' = Some snapshot
         \<and> gameMessages s' = Some [(''It's your turn!'', ''success'')])"
proof -
  have g: "gameState inPlay = Some snapshot"
    by (simp add: inPlay_def)
  have k: "ownersKnown (players snapshot) (magnets snapshot)"
    by (simp add: ownersKnown_def snapshot_def alice_def bob_def magnetA_def magnetB_def)
  have m: "myPlayerId inPlay = Some ''A''" "gameMessages inPlay = Some []"
    by (simp_all add: inPlay_def generateMask_def init_def beforeInit_def)
  have t: "snapshot\<lparr>currentTurnPlayerId := Some ''A''\<rparr> = snapshot"
    by (simp add: snapshot_def)
  show ?thesis
    using g k m t
      turn_changed_patches_turn_only[OF g k, of paintDisc 0 "Some ''B''"]
      turn_changed_patches_turn_only[OF g k, of paintDisc 0 "Some ''A''"]
    by auto
qed

subsection \<open>Attraction lines\<close>












subsection \<open>Movement animation\<close>

lemma magnetPosition_updateFirst:
  assumes "\<And>m. magnet_id (f m) = magnet_id m"
  shows "magnetPosition i (updateFirst (\<lambda>m. magnet_id m = j) f ms) =
     (if i = j then map_option (\<lambda>m. position (f m)) (find (\<lambda>m. magnet_id m = j) ms)
      else magnetPosition i ms)"
  using assms by (induction ms) (auto simp: magnetPosition_def)





lemma find_rev_distinct:
  "distinct (map key xs) \<Longrightarrow> a \<in> set xs \<Longrightarrow> find (\<lambda>x. key x = key a) (rev xs) = Some a"
proof (induction xs rule: rev_induct)
  case Nil
  then show ?case by simp
next
  case (snoc x xs)
  then show ?case by (cases "x = a") (auto simp: image_iff)
qed








subsection \<open>Placement messages\<close>

lemma map_updateFirst:
  "(\<And>m. g (f m) = g m) \<Longrightarrow> map g (updateFirst P f ms) = map g ms"
  by (induction ms) auto

lemma ownersKnown_cong:
  "map playerId ms = map playerId ms' \<Longrightarrow> ownersKnown ps ms = ownersKnown ps ms'"
proof -
  assume "map playerId ms = map playerId ms'"
  moreover have "\<And>xs. ownersKnown ps xs = list_all (\<lambda>p. p \<in> set (map player_id ps)) (map playerId xs)"
    by (simp add: ownersKnown_def list_all_iff)
  ultimately show ?thesis by simp
qed

lemma map_foldl_resetToOrigin:
  "map playerId (foldl resetToOrigin ms movs) = map playerId ms"
  "map magnet_id (foldl resetToOrigin ms movs) = map magnet_id ms"
  by (induction movs arbitrary: ms) (simp_all add: resetToOrigin_def map_updateFirst)

lemma map_foldl_moveMagnet:
  "map playerId (foldl (moveMagnet e) ms anims) = map playerId ms"
  "map magnet_id (foldl (moveMagnet e) ms anims) = map magnet_id ms"
  by (induction anims arbitrary: ms) (simp_all add: moveMagnet_def map_updateFirst)

lemma magnetPosition_resetToOrigin:
  "magnetPosition i (resetToOrigin ms mv) =
     (if i = magnetId mv then map_option (\<lambda>p. fromPosition mv) (magnetPosition i ms)
      else magnetPosition i ms)"
  by (simp add: resetToOrigin_def magnetPosition_updateFirst)
     (simp add: magnetPosition_def option.map_comp comp_def)

lemma magnetPosition_foldl_resetToOrigin:
  "magnetPosition i (foldl resetToOrigin ms movs) =
     (case find (\<lambda>mv. magnetId mv = i) (rev movs) of
        None \<Rightarrow> magnetPosition i ms
      | Some mv \<Rightarrow> map_option (\<lambda>p. fromPosition mv) (magnetPosition i ms))"
proof (induction movs rule: rev_induct)
  case Nil
  show ?case by simp
next
  case (snoc mv movs)
  show ?case
    using snoc.IH
    by (auto simp: magnetPosition_resetToOrigin option.map_comp comp_def split: option.splits)
qed

lemma updateState_Normal:
  assumes "ownersKnown (players gs) (magnets gs)"
  shows "\<exists>c. updateState gs s = Normal (s\<lparr>gameState := Some gs, canvas := c\<rparr>)"
proof (cases "canvas s")
  case None
  then have e: "s\<lparr>gameState := Some gs\<rparr> = s\<lparr>gameState := Some gs, canvas := None\<rparr>"
    by (cases s) simp
  have "updateState gs s = Normal (s\<lparr>gameState := Some gs\<rparr>)"
    using None by (simp add: updateState_def render_eq)
  then have "updateState gs s = Normal (s\<lparr>gameState := Some gs, canvas := None\<rparr>)"
    using e by simp
  then show ?thesis ..
next
  case (Some a)
  then have "updateState gs s = Normal (s\<lparr>gameState := Some gs, canvas :=
      Some (a\<lparr>disabled := \<not> canPlaceMagnet (s\<lparr>gameState := Some gs\<rparr>)\<rparr>)\<rparr>)"
    using assms by (simp add: updateState_def render_eq)
  then show ?thesis ..
qed

lemma placed_with_movements:
  assumes "ownersKnown (players gs) (magnets gs)" and "movs \<noteq> []"
  shows "\<exists>s1. handleServerMessage paint perfNow (MAGNET_PLACED gs mg (Some movs)) s = Normal s1
     \<and> gameState s1 = Some (stateBeforeMovement gs movs)
     \<and> animatingMagnets s1 =
         map (\<lambda>m. \<lparr>anim_magnetId = magnetId m, fromPos = fromPosition m,
                    toPos = toPosition m, progress = 0\<rparr>) movs
     \<and> frameRequests s1 =
         frameRequests s @ [(nextFrameHandle s, MoveAnimate perfNow (Some (UpdateState gs)))]
     \<and> animationFrameId s1 = Some (nextFrameHandle s)
     \<and> nextFrameHandle s1 = nextFrameHandle s + 1"
proof -
  have k: "ownersKnown (players (stateBeforeMovement gs movs)) (magnets (stateBeforeMovement gs movs))"
    using assms(1) ownersKnown_cong[OF map_foldl_resetToOrigin(1)[of "magnets gs" movs]]
    by (simp add: stateBeforeMovement_def)
  obtain c where u: "updateState (stateBeforeMovement gs movs) s
      = Normal (s\<lparr>gameState := Some (stateBeforeMovement gs movs), canvas := c\<rparr>)"
    using updateState_Normal[OF k] by blast
  show ?thesis
    using assms(2) u
    by (simp add: handleMagnetPlaced_def animateMovements_def requestAnimationFrame_def
        showMessage_def Let_def split: option.splits)
qed

lemma placed_without_movements:
  assumes "ownersKnown (players gs) (magnets gs)" and "movements = None \<or> movements = Some []"
  shows "\<exists>s1. handleServerMessage paint perfNow (MAGNET_PLACED gs mg movements) s = Normal s1
     \<and> gameState s1 = Some gs
     \<and> animatingMagnets s1 = animatingMagnets s
     \<and> frameRequests s1 = frameRequests s
     \<and> animationFrameId s1 = animationFrameId s"
proof -
  obtain c where u: "updateState gs s = Normal (s\<lparr>gameState := Some gs, canvas := c\<rparr>)"
    using updateState_Normal[OF assms(1)] by blast
  show ?thesis
    using assms(2) u
    by (auto simp: handleMagnetPlaced_def showMessage_def Let_def split: option.splits)
qed

lemma moveAnimate_running:
  assumes "gameState s' = Some g'" and "ownersKnown (players g') (magnets g')"
    and "moveProgress startTime t < 1"
  shows "\<exists>s2. moveAnimate startTime onComplete t s' = Normal s2
     \<and> gameState s2 =
         Some (g'\<lparr>magnets := foldl (moveMagnet (easeOut (moveProgress startTime t))) (magnets g')
                               (animatingMagnets s')\<rparr>)
     \<and> animatingMagnets s2 =
         map (\<lambda>a. a\<lparr>progress := easeOut (moveProgress startTime t)\<rparr>) (animatingMagnets s')
     \<and> frameRequests s2 =
         frameRequests s' @ [(nextFrameHandle s', MoveAnimate startTime onComplete)]
     \<and> nextFrameHandle s2 = nextFrameHandle s' + 1"
proof -
  let ?e = "easeOut (moveProgress startTime t)"
  let ?g = "g'\<lparr>magnets := foldl (moveMagnet ?e) (magnets g') (animatingMagnets s')\<rparr>"
  have k: "ownersKnown (players ?g) (magnets ?g)"
    using assms(2) ownersKnown_cong[OF map_foldl_moveMagnet(1)[of ?e "magnets g'" "animatingMagnets s'"]]
    by simp
  show ?thesis
    using assms(1,3) k assms(2)
    by (cases "animatingMagnets s'"; cases "canvas s'")
       (simp_all add: moveAnimate_def updatePositions_def render_eq requestAnimationFrame_def
          Let_def del: foldl_Cons)
qed

lemma moveAnimate_complete:
  assumes "gameState s' = Some g'" and "ownersKnown (players g') (magnets g')"
    and "ownersKnown (players gs) (magnets gs)"
    and "\<not> moveProgress startTime t < 1"
  shows "\<exists>s2. moveAnimate startTime (Some (UpdateState gs)) t s' = Normal s2
     \<and> gameState s2 = Some gs
     \<and> animatingMagnets s2 = []
     \<and> animationFrameId s2 = None
     \<and> frameRequests s2 = frameRequests s'
     \<and> nextFrameHandle s2 = nextFrameHandle s'"
proof -
  let ?e = "easeOut (moveProgress startTime t)"
  let ?g = "g'\<lparr>magnets := foldl (moveMagnet ?e) (magnets g') (animatingMagnets s')\<rparr>"
  have k: "ownersKnown (players ?g) (magnets ?g)"
    using assms(2) ownersKnown_cong[OF map_foldl_moveMagnet(1)[of ?e "magnets g'" "animatingMagnets s'"]]
    by simp
  show ?thesis
    using assms(1,3,4) k assms(2)
    by (cases "animatingMagnets s'"; cases "canvas s'")
       (simp_all add: moveAnimate_def updatePositions_def render_eq runCallback_def
          updateState_def Let_def del: foldl_Cons)
qed

lemma moveProgress_less_one:
  "(moveProgress startTime t < 1) = (t < startTime + ANIMATION_DURATION)"
  by (auto simp: moveProgress_def ANIMATION_DURATION_def min_def)

text \<open>
  C3. Let the snapshot of a \<open>MAGNET_PLACED\<close> message have all owners in the roster.
  With a non-empty batch the handler returns normally with the synthetic snapshot
  \<open>stateBeforeMovement\<close> committed, the batch in \<open>animatingMagnets\<close> and the closure
  \<open>animate\<close>, holding the real snapshot, requested for the next frame. The synthetic
  snapshot differs from the real one only in the magnets, keeps their identifiers and
  owners, and has every magnet named by a movement at the origin of the last movement
  that names it (of every movement, when the identifiers of the batch are distinct) and
  the other magnets where they were. A frame of \<open>animate\<close> before the duration has
  elapsed only moves magnets in the snapshot it finds and requests itself again; a frame
  at or after it commits the real snapshot, empties \<open>animatingMagnets\<close> and requests
  nothing. Without movements, or with none in the batch, the handler commits the real
  snapshot at once and starts no animation.
\<close>

theorem magnet_placed_sequencing:
  assumes "ownersKnown (players gs) (magnets gs)"
  shows
    "(movs \<noteq> [] \<longrightarrow>
       (\<exists>s1. handleServerMessage paint perfNow (MAGNET_PLACED gs mg (Some movs)) s = Normal s1
          \<and> gameState s1 = Some (stateBeforeMovement gs movs)
          \<and> animatingMagnets s1 =
              map (\<lambda>m. \<lparr>anim_magnetId = magnetId m, fromPos = fromPosition m,
                         toPos = toPosition m, progress = 0\<rparr>) movs
          \<and> frameRequests s1 =
              frameRequests s @ [(nextFrameHandle s, MoveAnimate perfNow (Some (UpdateState gs)))]))
     \<and> stateBeforeMovement gs movs = gs\<lparr>magnets := magnets (stateBeforeMovement gs movs)\<rparr>
     \<and> map magnet_id (magnets (stateBeforeMovement gs movs)) = map magnet_id (magnets gs)
     \<and> map playerId (magnets (stateBeforeMovement gs movs)) = map playerId (magnets gs)
     \<and> (\<forall>i. magnetPosition i (magnets (stateBeforeMovement gs movs)) =
            (case find (\<lambda>mv. magnetId mv = i) (rev movs) of
               None \<Rightarrow> magnetPosition i (magnets gs)
             | Some mv \<Rightarrow> map_option (\<lambda>p. fromPosition mv) (magnetPosition i (magnets gs))))
     \<and> (distinct (map magnetId movs) \<longrightarrow>
          (\<forall>mv \<in> set movs.
             magnetPosition (magnetId mv) (magnets (stateBeforeMovement gs movs)) =
               map_option (\<lambda>p. fromPosition mv) (magnetPosition (magnetId mv) (magnets gs))))
     \<and> (gameState s' = Some g' \<and> ownersKnown (players g') (magnets g')
          \<and> t < perfNow + ANIMATION_DURATION \<longrightarrow>
          (\<exists>s2. moveAnimate perfNow (Some (UpdateState gs)) t s' = Normal s2
             \<and> gameState s2 =
                 Some (g'\<lparr>magnets := foldl (moveMagnet (easeOut (moveProgress perfNow t)))
                                        (magnets g') (animatingMagnets s')\<rparr>)
             \<and> frameRequests s2 =
                 frameRequests s'
                 @ [(nextFrameHandle s', MoveAnimate perfNow (Some (UpdateState gs)))]))
     \<and> (gameState s' = Some g' \<and> ownersKnown (players g') (magnets g')
          \<and> perfNow + ANIMATION_DURATION \<le> t \<longrightarrow>
          (\<exists>s2. moveAnimate perfNow (Some (UpdateState gs)) t s' = Normal s2
             \<and> gameState s2 = Some gs
             \<and> animatingMagnets s2 = []
             \<and> animationFrameId s2 = None
             \<and> frameRequests s2 = frameRequests s'))
     \<and> (movements = None \<or> movements = Some [] \<longrightarrow>
          (\<exists>s1. handleServerMessage paint perfNow (MAGNET_PLACED gs mg movements) s = Normal s1
             \<and> gameState s1 = Some gs
             \<and> animatingMagnets s1 = animatingMagnets s
             \<and> frameRequests s1 = frameRequests s
             \<and> animationFrameId s1 = animationFrameId s))"
proof -
  have a: "movs \<noteq> [] \<longrightarrow>
       (\<exists>s1. handleServerMessage paint perfNow (MAGNET_PLACED gs mg (Some movs)) s = Normal s1
          \<and> gameState s1 = Some (stateBeforeMovement gs movs)
          \<and> animatingMagnets s1 =
              map (\<lambda>m. \<lparr>anim_magnetId = magnetId m, fromPos = fromPosition m,
                         toPos = toPosition m, progress = 0\<rparr>) movs
          \<and> frameRequests s1 =
              frameRequests s @ [(nextFrameHandle s, MoveAnimate perfNow (Some (UpdateState gs)))])"
    using placed_with_movements[OF assms, of movs paint perfNow mg s] by blast
  have b: "stateBeforeMovement gs movs = gs\<lparr>magnets := magnets (stateBeforeMovement gs movs)\<rparr>"
    by (simp add: stateBeforeMovement_def)
  have c: "map magnet_id (magnets (stateBeforeMovement gs movs)) = map magnet_id (magnets gs)"
    "map playerId (magnets (stateBeforeMovement gs movs)) = map playerId (magnets gs)"
    by (simp_all add: stateBeforeMovement_def map_foldl_resetToOrigin)
  have d: "\<forall>i. magnetPosition i (magnets (stateBeforeMovement gs movs)) =
            (case find (\<lambda>mv. magnetId mv = i) (rev movs) of
               None \<Rightarrow> magnetPosition i (magnets gs)
             | Some mv \<Rightarrow> map_option (\<lambda>p. fromPosition mv) (magnetPosition i (magnets gs)))"
    by (simp add: stateBeforeMovement_def magnetPosition_foldl_resetToOrigin)
  have e: "distinct (map magnetId movs) \<longrightarrow>
          (\<forall>mv \<in> set movs.
             magnetPosition (magnetId mv) (magnets (stateBeforeMovement gs movs)) =
               map_option (\<lambda>p. fromPosition mv) (magnetPosition (magnetId mv) (magnets gs)))"
    using d find_rev_distinct[of magnetId movs] by simp
  have f: "gameState s' = Some g' \<and> ownersKnown (players g') (magnets g')
          \<and> t < perfNow + ANIMATION_DURATION \<longrightarrow>
          (\<exists>s2. moveAnimate perfNow (Some (UpdateState gs)) t s' = Normal s2
             \<and> gameState s2 =
                 Some (g'\<lparr>magnets := foldl (moveMagnet (easeOut (moveProgress perfNow t)))
                                        (magnets g') (animatingMagnets s')\<rparr>)
             \<and> frameRequests s2 =
                 frameRequests s'
                 @ [(nextFrameHandle s', MoveAnimate perfNow (Some (UpdateState gs)))])"
    using moveAnimate_running[of s' g' perfNow t "Some (UpdateState gs)"]
    by (simp only: moveProgress_less_one) blast
  have g: "gameState s' = Some g' \<and> ownersKnown (players g') (magnets g')
          \<and> perfNow + ANIMATION_DURATION \<le> t \<longrightarrow>
          (\<exists>s2. moveAnimate perfNow (Some (UpdateState gs)) t s' = Normal s2
             \<and> gameState s2 = Some gs
             \<and> animatingMagnets s2 = []
             \<and> animationFrameId s2 = None
             \<and> frameRequests s2 = frameRequests s')"
    using moveAnimate_complete[of s' g' gs perfNow t] assms
    by (simp only: moveProgress_less_one not_less) blast
  have h: "movements = None \<or> movements = Some [] \<longrightarrow>
          (\<exists>s1. handleServerMessage paint perfNow (MAGNET_PLACED gs mg movements) s = Normal s1
             \<and> gameState s1 = Some gs
             \<and> animatingMagnets s1 = animatingMagnets s
             \<and> frameRequests s1 = frameRequests s
             \<and> animationFrameId s1 = animationFrameId s)"
    using placed_without_movements[OF assms, of movements paint perfNow mg s] by blast
  show ?thesis
    using a b c d e f g h by (intro conjI)
qed


theorem magnet_placed_sequencing_witness:
  "ownersKnown (players settled) (magnets settled)
   \<and> (\<exists>s1. handleServerMessage paintDisc 0 (MAGNET_PLACED settled magnetB (Some [movementB])) inPlay
              = Normal s1
         \<and> gameState s1 = Some (settled\<lparr>magnets := [magnetA, magnetB]\<rparr>)
         \<and> animatingMagnets s1 = [movingB]
         \<and> frameRequests s1 = [(1, MoveAnimate 0 (Some (UpdateState settled)))])
   \<and> magnetPosition ''m2'' (magnets (stateBeforeMovement settled [movementB]))
       = Some \<lparr>xc = 420, yc = 300\<rparr>
   \<and> (\<exists>s2. moveAnimate 0 (Some (UpdateState settled)) 300
               (inPlay\<lparr>gameState := Some (settled\<lparr>magnets := [magnetA, magnetB]\<rparr>),
                       animatingMagnets := [movingB]\<rparr>) = Normal s2
         \<and> gameState s2 =
             Some (settled\<lparr>magnets := [magnetA, magnetB\<lparr>position := \<lparr>xc = 411.25, yc = 300\<rparr>\<rparr>]\<rparr>)
         \<and> frameRequests s2 = [(1, MoveAnimate 0 (Some (UpdateState settled)))])
   \<and> (\<exists>s2. moveAnimate 0 (Some (UpdateState settled)) 600
               (inPlay\<lparr>gameState := Some (settled\<lparr>magnets := [magnetA, magnetB]\<rparr>),
                       animatingMagnets := [movingB]\<rparr>) = Normal s2
         \<and> gameState s2 = Some settled
         \<and> animatingMagnets s2 = []
         \<and> animationFrameId s2 = None
         \<and> frameRequests s2 = [])
   \<and> (\<exists>s1. handleServerMessage paintDisc 0 (MAGNET_PLACED settled magnetB None) inPlay = Normal s1
         \<and> gameState s1 = Some settled
         \<and> animatingMagnets s1 = []
         \<and> frameRequests s1 = []
         \<and> animationFrameId s1 = None)"
proof -
  let ?syn = "settled\<lparr>magnets := [magnetA, magnetB]\<rparr>"
  let ?s = "inPlay\<lparr>gameState := Some ?syn, animatingMagnets := [movingB]\<rparr>"
  have k: "ownersKnown (players settled) (magnets settled)"
    by (simp add: ownersKnown_def settled_def snapshot_def alice_def bob_def magnetA_def
        magnetB_def)
  have syn: "stateBeforeMovement settled [movementB] = ?syn"
    by (simp add: stateBeforeMovement_def resetToOrigin_def settled_def snapshot_def
        movementB_def magnetA_def magnetB_def)
  have mv: "\<lparr>anim_magnetId = magnetId movementB, fromPos = fromPosition movementB,
               toPos = toPosition movementB, progress = 0\<rparr> = movingB"
    by (simp add: movementB_def movingB_def)
  have i: "frameRequests inPlay = []" "nextFrameHandle inPlay = 1" "animatingMagnets inPlay = []"
    "animationFrameId inPlay = None"
    by (simp_all add: inPlay_def generateMask_def init_def beforeInit_def)
  have ks: "ownersKnown (players settled) [magnetA, magnetB]"
    by (simp add: ownersKnown_def settled_def snapshot_def alice_def bob_def magnetA_def
        magnetB_def)
  have e: "easeOut (moveProgress 0 300) = 7 / 8"
    by (simp add: easeOut_def moveProgress_def ANIMATION_DURATION_def power3_eq_cube)
  have p: "foldl (moveMagnet (7 / 8)) [magnetA, magnetB] [movingB]
      = [magnetA, magnetB\<lparr>position := \<lparr>xc = 411.25, yc = 300\<rparr>\<rparr>]"
    by (simp add: moveMagnet_def animatedPosition_def movingB_def magnetA_def magnetB_def)
  have q: "magnetPosition ''m2'' [magnetA, magnetB] = Some \<lparr>xc = 420, yc = 300\<rparr>"
    by (simp add: magnetPosition_def magnetA_def magnetB_def)
  note t1 = magnet_placed_sequencing[OF k, of "[movementB]" paintDisc 0 magnetB inPlay ?s ?syn 300 None]
  note t2 = magnet_placed_sequencing[OF k, of "[movementB]" paintDisc 0 magnetB inPlay ?s ?syn 600 None]
  have A: "\<exists>s1. handleServerMessage paintDisc 0 (MAGNET_PLACED settled magnetB (Some [movementB])) inPlay
              = Normal s1
         \<and> gameState s1 = Some (settled\<lparr>magnets := [magnetA, magnetB]\<rparr>)
         \<and> animatingMagnets s1 = [movingB]
         \<and> frameRequests s1 = [(1, MoveAnimate 0 (Some (UpdateState settled)))]"
    using t1 by (simp add: syn mv i)
  have B: "magnetPosition ''m2'' (magnets (stateBeforeMovement settled [movementB]))
       = Some \<lparr>xc = 420, yc = 300\<rparr>"
    by (simp add: syn q)
  have C: "\<exists>s2. moveAnimate 0 (Some (UpdateState settled)) 300 ?s = Normal s2
         \<and> gameState s2 =
             Some (settled\<lparr>magnets := [magnetA, magnetB\<lparr>position := \<lparr>xc = 411.25, yc = 300\<rparr>\<rparr>]\<rparr>)
         \<and> frameRequests s2 = [(1, MoveAnimate 0 (Some (UpdateState settled)))]"
    using t1 ks by (simp add: i e p ANIMATION_DURATION_def del: foldl_Cons foldl_Nil)
  have D: "\<exists>s2. moveAnimate 0 (Some (UpdateState settled)) 600 ?s = Normal s2
         \<and> gameState s2 = Some settled
         \<and> animatingMagnets s2 = []
         \<and> animationFrameId s2 = None
         \<and> frameRequests s2 = []"
    using t2 ks by (simp add: i ANIMATION_DURATION_def del: foldl_Cons foldl_Nil)
  have E: "\<exists>s1. handleServerMessage paintDisc 0 (MAGNET_PLACED settled magnetB None) inPlay = Normal s1
         \<and> gameState s1 = Some settled
         \<and> animatingMagnets s1 = []
         \<and> frameRequests s1 = []
         \<and> animationFrameId s1 = None"
    using t1 by (simp add: i)
  show ?thesis
    using k A B C D E by (intro conjI)
qed


subsection \<open>The frames of a movement animation\<close>



















subsection \<open>Rendering and the clock\<close>

lemma drawPair_far:
  "CLUMP_THRESHOLD < distance m1 m2 \<Longrightarrow> drawPair now1 m1 m2 = drawPair now2 m1 m2"
  by (simp add: drawPair_def)

lemma drawPair_same_pulse:
  "sin (now1 / 200) = sin (now2 / 200) \<Longrightarrow> drawPair now1 m1 m2 = drawPair now2 m1 m2"
  by (simp add: drawPair_def clumpHighlight_def)

lemma drawAttractionLines_far:
  assumes "noClumpedPair s"
  shows "drawAttractionLines now1 (gameState s) = drawAttractionLines now2 (gameState s)"
proof (cases "gameState s")
  case None
  then show ?thesis by (simp add: drawAttractionLines_def)
next
  case (Some gs)
  with assms have far: "\<And>m1 m2. (m1, m2) \<in> set (magnetPairs (magnets gs))
      \<Longrightarrow> CLUMP_THRESHOLD < distance m1 m2"
    by (auto simp: noClumpedPair_def list_all_iff)
  have m: "map (\<lambda>(m1, m2). drawPair now1 m1 m2) (magnetPairs (magnets gs))
      = map (\<lambda>(m1, m2). drawPair now2 m1 m2) (magnetPairs (magnets gs))"
    by (rule map_cong[OF refl]) (auto intro!: drawPair_far far)
  show ?thesis
    by (simp only: Some drawAttractionLines_def option.case m)
qed

lemma drawAttractionLines_same_pulse:
  assumes "sin (now1 / 200) = sin (now2 / 200)"
  shows "drawAttractionLines now1 g = drawAttractionLines now2 g"
proof -
  have e: "drawPair now1 = drawPair now2"
    by (intro ext) (rule drawPair_same_pulse[OF assms])
  show ?thesis
    unfolding drawAttractionLines_def e ..
qed

lemma renderDraws_clock:
  "drawAttractionLines now1 (gameState s) = drawAttractionLines now2 (gameState s)
   \<Longrightarrow> renderDraws now1 s = renderDraws now2 s"
  by (cases "gameState s") (simp_all add: renderDraws_def split: option.splits)

lemma render_state:
  "state_of (render s) =
     s\<lparr>canvas := (case gameState s of
                    None \<Rightarrow> canvas s
                  | Some gs \<Rightarrow>
                      if ownersKnown (players gs) (magnets gs)
                      then map_option (\<lambda>c. c\<lparr>disabled := \<not> canPlaceMagnet s\<rparr>) (canvas s)
                      else canvas s)\<rparr>"
  by (cases "canvas s"; cases "gameState s") (simp_all add: render_eq)

lemma renderDraws_after_render: "renderDraws now (state_of (render s)) = renderDraws now s"
  by (cases "canvas s"; cases "gameState s")
     (simp_all add: render_state renderDraws_def drawBackground_def split: option.splits)

text \<open>
  C8, as the code has it. The highlight of a clumped pair pulses with \<open>Date.now()\<close>,
  so what \<open>render\<close> draws depends on the clock besides the state. Rendering again
  after a render draws the same at the same clock reading; two renders of one state
  draw the same at any two clock readings when no pair of magnets is within the clump
  threshold, and whenever the two readings give the same \<open>sin (now / 200)\<close>.
  \<open>render\<close> leaves the snapshot, the local player and the animation list as they
  are: the only field it writes is the canvas, where it keeps the size (it sets the
  class \<open>disabled\<close>).
\<close>

theorem rendering_repeatable:
  "renderDraws now (state_of (render s)) = renderDraws now s
   \<and> (noClumpedPair s \<longrightarrow> renderDraws now1 s = renderDraws now2 s)
   \<and> (sin (now1 / 200) = sin (now2 / 200) \<longrightarrow> renderDraws now1 s = renderDraws now2 s)
   \<and> gameState (state_of (render s)) = gameState s
   \<and> myPlayerId (state_of (render s)) = myPlayerId s
   \<and> animatingMagnets (state_of (render s)) = animatingMagnets s
   \<and> state_of (render s) = s\<lparr>canvas := canvas (state_of (render s))\<rparr>
   \<and> map_option width (canvas (state_of (render s))) = map_option width (canvas s)
   \<and> map_option height (canvas (state_of (render s))) = map_option height (canvas s)"
proof -
  have a: "noClumpedPair s \<longrightarrow> renderDraws now1 s = renderDraws now2 s"
    using renderDraws_clock[OF drawAttractionLines_far] by blast
  have b: "sin (now1 / 200) = sin (now2 / 200) \<longrightarrow> renderDraws now1 s = renderDraws now2 s"
    using renderDraws_clock[OF drawAttractionLines_same_pulse] by blast
  have c: "state_of (render s) = s\<lparr>canvas := canvas (state_of (render s))\<rparr>"
    by (subst (1 2) render_state) simp
  have d: "map_option width (canvas (state_of (render s))) = map_option width (canvas s)"
    "map_option height (canvas (state_of (render s))) = map_option height (canvas s)"
    by (cases "canvas s"; cases "gameState s"; simp add: render_state)+
  show ?thesis
    using renderDraws_after_render[of now s] a b c d by (simp add: render_state)
qed

theorem rendering_repeatable_witness:
  "noClumpedPair apart
   \<and> renderDraws 0 apart = renderDraws (100 * pi) apart
   \<and> sin (0 / 200) = sin (400 * pi / 200)
   \<and> renderDraws 0 inPlay = renderDraws (400 * pi) inPlay
   \<and> renderDraws 0 (state_of (render inPlay)) = renderDraws 0 inPlay
   \<and> gameState (state_of (render inPlay)) = Some snapshot"
proof -
  have "sqrt 10000 = \<bar>100::real\<bar>"
    using real_sqrt_abs2[of 100] by simp
  then have n: "noClumpedPair apart"
    by (simp add: noClumpedPair_def apart_def snapshot_def distance_def magnetA_def magnetB_def
        CLUMP_THRESHOLD_def)
  have p: "sin (0 / 200) = sin (400 * pi / 200)"
    by simp
  have g: "gameState inPlay = Some snapshot"
    by (simp add: inPlay_def)
  show ?thesis
    using n p g rendering_repeatable[of 0 apart 0 "100 * pi"]
      rendering_repeatable[of 0 inPlay 0 "400 * pi"]
    by simp
qed

text \<open>
  C8 as stated fails: Alice's client with two magnets 20 pixels apart draws, for the
  same state, a highlight of opacity 0.6 at clock reading 0 and of opacity 0.8 at
  \<open>100 * pi\<close> milliseconds.
\<close>

theorem rendering_clock_counterexample:
  "renderDraws 0 inPlay \<noteq> renderDraws (100 * pi) inPlay"
proof
  assume eq: "renderDraws 0 inPlay = renderDraws (100 * pi) inPlay"
  have k: "ownersKnown (players snapshot) (magnets snapshot)"
    by (simp add: ownersKnown_def snapshot_def alice_def bob_def magnetA_def magnetB_def)
  then obtain ms where ms: "drawMagnets (players snapshot) (Some ''A'') (magnets snapshot) = Some ms"
    using drawEach_None[of "players snapshot" "Some ''A''" "magnets snapshot"]
    by (auto simp: drawMagnets_def)
  have r: "\<And>now. renderDraws now inPlay =
      Some ([ClearRect 0 0 800 600] @ drawBackground \<lparr>width = 800, height = 600, disabled = False\<rparr>
            @ drawShape (shapeType snapshot) @ ms @ drawAttractionLines now (Some snapshot))"
    using ms by (simp add: renderDraws_def inPlay_def generateMask_def init_def beforeInit_def)
  have "sqrt 400 = \<bar>20::real\<bar>"
    using real_sqrt_abs2[of 20] by simp
  then have d: "distance magnetA magnetB = 20"
    by (simp add: distance_def magnetA_def magnetB_def)
  have l: "\<And>now. drawAttractionLines now (Some snapshot)
      = [Save] @ clumpHighlight now magnetA magnetB @ [Restore]"
    by (simp add: drawAttractionLines_def snapshot_def drawPair_def d CLUMP_THRESHOLD_def
        ATTRACTION_RANGE_def)
  from eq have "clumpHighlight 0 magnetA magnetB = clumpHighlight (100 * pi) magnetA magnetB"
    by (simp add: r l)
  then show False
    by (simp add: clumpHighlight_def)
qed


subsection \<open>Messages during an animation\<close>

lemma clumped_started:
  assumes "cl \<noteq> []" and "gameState s = Some g" and "canvas s = Some c"
  shows "\<exists>s1. handleServerMessage paint perfNow (MAGNETS_CLUMPED gs (Some cl) collector n) s = Normal s1
     \<and> gameState s1 = Some g
     \<and> animatingMagnets s1 = animatingMagnets s
     \<and> frameRequests s1 =
         frameRequests s
         @ [(nextFrameHandle s,
             ClumpAnimate perfNow (real (width c) + 50)
               (50 + real_of_int (findIndex (\<lambda>p. player_id p = collector) (players g)) * 60)
               (map (\<lambda>m. \<lparr>fly_magnet = m, startPos = position m, fly_progress = 0\<rparr>) cl) cl
               (Some (UpdateState gs)))]"
  using assms
  by (cases "gameMessages s")
     (simp_all add: handleMagnetsClumped_def animateClumpCollection_def showMessage_def
        requestAnimationFrame_def Let_def split: option.splits)

lemma firstPlacement_state:
  "gameState (handleMessage paintDisc 0 firstPlacement inPlay)
     = Some (settled\<lparr>magnets := [magnetA, magnetB]\<rparr>)"
  "animatingMagnets (handleMessage paintDisc 0 firstPlacement inPlay) = [movingB]"
  "frameRequests (handleMessage paintDisc 0 firstPlacement inPlay)
     = [(1, MoveAnimate 0 (Some (UpdateState settled)))]"
  "nextFrameHandle (handleMessage paintDisc 0 firstPlacement inPlay) = 2"
  "myPlayerId (handleMessage paintDisc 0 firstPlacement inPlay) = Some ''A''"
  "canvas (handleMessage paintDisc 0 firstPlacement inPlay)
     = Some \<lparr>width = 800, height = 600, disabled = True\<rparr>"
  by (simp_all add: handleMessage_def firstPlacement_def handleMagnetPlaced_def updateState_def
      render_eq ownersKnown_def stateBeforeMovement_def resetToOrigin_def animateMovements_def
      requestAnimationFrame_def showMessage_def inPlay_def generateMask_def init_def beforeInit_def settled_def
      snapshot_def alice_def bob_def magnetA_def magnetB_def movementB_def movingB_def Let_def
      canPlaceMagnet_def)


text \<open>
  The first placement alone: its animation is half way at 300 ms, and the frame at
  600 ms commits the snapshot of the message and ends the animation.
\<close>

lemma placement_run:
  "gameState (animationFrame 300 (handleMessage paintDisc 0 firstPlacement inPlay))
     = Some (settled\<lparr>magnets := [magnetA, magnetB\<lparr>position := \<lparr>xc = 411.25, yc = 300\<rparr>\<rparr>]\<rparr>)"
  "animationInFlight (animationFrame 300 (handleMessage paintDisc 0 firstPlacement inPlay))"
  "gameState (animationFrame 600 (animationFrame 300 (handleMessage paintDisc 0 firstPlacement inPlay)))
     = Some settled"
  "animatingMagnets (animationFrame 600 (animationFrame 300 (handleMessage paintDisc 0 firstPlacement inPlay)))
     = []"
  "\<not> animationInFlight
      (animationFrame 600 (animationFrame 300 (handleMessage paintDisc 0 firstPlacement inPlay)))"
proof -
  define S1 where "S1 = handleMessage paintDisc 0 firstPlacement inPlay"
  note f = firstPlacement_state[folded S1_def]
  let ?syn = "settled\<lparr>magnets := [magnetA, magnetB]\<rparr>"
  let ?mid = "settled\<lparr>magnets := [magnetA, magnetB\<lparr>position := \<lparr>xc = 411.25, yc = 300\<rparr>\<rparr>]\<rparr>"
  have k1: "ownersKnown (players settled) (magnets settled)"
    and ks: "ownersKnown (players ?syn) (magnets ?syn)"
    and km: "ownersKnown (players ?mid) (magnets ?mid)"
    by (simp_all add: ownersKnown_def settled_def snapshot_def alice_def bob_def magnetA_def
        magnetB_def)
  have e: "easeOut (moveProgress 0 300) = 7 / 8"
    by (simp add: easeOut_def moveProgress_def ANIMATION_DURATION_def power3_eq_cube)
  have p: "foldl (moveMagnet (7 / 8)) [magnetA, magnetB] [movingB]
      = [magnetA, magnetB\<lparr>position := \<lparr>xc = 411.25, yc = 300\<rparr>\<rparr>]"
    by (simp add: moveMagnet_def animatedPosition_def movingB_def magnetA_def magnetB_def)
  have r300: "moveProgress 0 300 < 1" and c600: "\<not> moveProgress 0 600 < 1"
    by (simp_all add: moveProgress_def ANIMATION_DURATION_def)
  obtain s2 where s2: "moveAnimate 0 (Some (UpdateState settled)) 300 (S1\<lparr>frameRequests := []\<rparr>)
        = Normal s2"
      "gameState s2 = Some ?mid"
      "frameRequests s2 = [(2, MoveAnimate 0 (Some (UpdateState settled)))]"
    using moveAnimate_running[of "S1\<lparr>frameRequests := []\<rparr>" ?syn 0 300 "Some (UpdateState settled)"]
      ks r300 f
    by (auto simp: e p simp del: foldl_Cons foldl_Nil)
  have fr1: "animationFrame 300 S1 = s2"
    by (simp add: animationFrame_def f s2)
  obtain s3 where s3: "moveAnimate 0 (Some (UpdateState settled)) 600 (s2\<lparr>frameRequests := []\<rparr>)
        = Normal s3"
      "gameState s3 = Some settled" "animatingMagnets s3 = []" "frameRequests s3 = []"
    using moveAnimate_complete[of "s2\<lparr>frameRequests := []\<rparr>" ?mid settled 0 600] km k1 c600 s2
    by auto
  have fr2: "animationFrame 600 s2 = s3"
    by (simp add: animationFrame_def s2 s3)
  show "gameState (animationFrame 300 S1) = Some ?mid"
    "animationInFlight (animationFrame 300 S1)"
    "gameState (animationFrame 600 (animationFrame 300 S1)) = Some settled"
    "animatingMagnets (animationFrame 600 (animationFrame 300 S1)) = []"
    "\<not> animationInFlight (animationFrame 600 (animationFrame 300 S1))"
    by (simp_all add: fr1 fr2 s2 s3 animationInFlight_def)
qed

text \<open>
  C1, as the code has it. Nothing is queued: a \<open>MAGNET_PLACED\<close> or \<open>MAGNETS_CLUMPED\<close>
  message is handled when it arrives, in any state, so also while an animation is in
  flight. A placement with movements commits its synthetic snapshot and replaces
  \<open>animatingMagnets\<close> at once, a placement without movements commits its snapshot at
  once, a collection leaves the snapshot and starts its animation; the frame callbacks
  requested before stay requested, and the new one is appended behind them.
\<close>

theorem messages_not_queued:
  shows
    "(ownersKnown (players gs) (magnets gs) \<and> movs \<noteq> [] \<longrightarrow>
       (\<exists>s1. handleServerMessage paint perfNow (MAGNET_PLACED gs mg (Some movs)) s = Normal s1
          \<and> gameState s1 = Some (stateBeforeMovement gs movs)
          \<and> animatingMagnets s1 =
              map (\<lambda>m. \<lparr>anim_magnetId = magnetId m, fromPos = fromPosition m,
                         toPos = toPosition m, progress = 0\<rparr>) movs
          \<and> frameRequests s1 =
              frameRequests s @ [(nextFrameHandle s, MoveAnimate perfNow (Some (UpdateState gs)))]))
     \<and> (ownersKnown (players gs) (magnets gs) \<and> (movements = None \<or> movements = Some []) \<longrightarrow>
          (\<exists>s1. handleServerMessage paint perfNow (MAGNET_PLACED gs mg movements) s = Normal s1
             \<and> gameState s1 = Some gs
             \<and> animatingMagnets s1 = animatingMagnets s
             \<and> frameRequests s1 = frameRequests s))
     \<and> (cl \<noteq> [] \<and> gameState s = Some g \<and> canvas s = Some c \<longrightarrow>
          (\<exists>s1 cb. handleServerMessage paint perfNow (MAGNETS_CLUMPED gs' (Some cl) collector n) s
                     = Normal s1
             \<and> gameState s1 = Some g
             \<and> animatingMagnets s1 = animatingMagnets s
             \<and> frameRequests s1 = frameRequests s @ [(nextFrameHandle s, cb)]))"
proof -
  have a: "ownersKnown (players gs) (magnets gs) \<and> movs \<noteq> [] \<longrightarrow>
       (\<exists>s1. handleServerMessage paint perfNow (MAGNET_PLACED gs mg (Some movs)) s = Normal s1
          \<and> gameState s1 = Some (stateBeforeMovement gs movs)
          \<and> animatingMagnets s1 =
              map (\<lambda>m. \<lparr>anim_magnetId = magnetId m, fromPos = fromPosition m,
                         toPos = toPosition m, progress = 0\<rparr>) movs
          \<and> frameRequests s1 =
              frameRequests s @ [(nextFrameHandle s, MoveAnimate perfNow (Some (UpdateState gs)))])"
    using placed_with_movements[of gs movs paint perfNow mg s] by blast
  have b: "ownersKnown (players gs) (magnets gs) \<and> (movements = None \<or> movements = Some []) \<longrightarrow>
          (\<exists>s1. handleServerMessage paint perfNow (MAGNET_PLACED gs mg movements) s = Normal s1
             \<and> gameState s1 = Some gs
             \<and> animatingMagnets s1 = animatingMagnets s
             \<and> frameRequests s1 = frameRequests s)"
    using placed_without_movements[of gs movements paint perfNow mg s] by blast
  have c: "cl \<noteq> [] \<and> gameState s = Some g \<and> canvas s = Some c \<longrightarrow>
          (\<exists>s1 cb. handleServerMessage paint perfNow (MAGNETS_CLUMPED gs' (Some cl) collector n) s
                     = Normal s1
             \<and> gameState s1 = Some g
             \<and> animatingMagnets s1 = animatingMagnets s
             \<and> frameRequests s1 = frameRequests s @ [(nextFrameHandle s, cb)])"
    using clumped_started[of cl s g c paint perfNow gs' collector n] by blast
  show ?thesis
    using a b c by (intro conjI)
qed

theorem messages_not_queued_witness:
  "animationInFlight (handleMessage paintDisc 0 firstPlacement inPlay)
   \<and> ownersKnown (players settledAgain) (magnets settledAgain)
   \<and> (\<exists>s1. handleServerMessage paintDisc 100 secondPlacement
               (handleMessage paintDisc 0 firstPlacement inPlay) = Normal s1
         \<and> gameState s1 =
             Some (settledAgain\<lparr>magnets := [magnetA, magnetB\<lparr>position := \<lparr>xc = 410, yc = 300\<rparr>\<rparr>]\<rparr>)
         \<and> animatingMagnets s1 = [movingA]
         \<and> frameRequests s1 =
             [(1, MoveAnimate 0 (Some (UpdateState settled))),
              (2, MoveAnimate 100 (Some (UpdateState settledAgain)))])
   \<and> (\<exists>s1. handleServerMessage paintDisc 100 (MAGNET_PLACED settledAgain magnetA None)
               (handleMessage paintDisc 0 firstPlacement inPlay) = Normal s1
         \<and> gameState s1 = Some settledAgain
         \<and> animatingMagnets s1 = [movingB]
         \<and> frameRequests s1 = [(1, MoveAnimate 0 (Some (UpdateState settled)))])
   \<and> (\<exists>s1 cb. handleServerMessage paintDisc 100
                  collection
                  (handleMessage paintDisc 0 firstPlacement inPlay) = Normal s1
         \<and> gameState s1 = Some (settled\<lparr>magnets := [magnetA, magnetB]\<rparr>)
         \<and> animatingMagnets s1 = [movingB]
         \<and> frameRequests s1 = [(1, MoveAnimate 0 (Some (UpdateState settled))), (2, cb)])"
proof -
  define S1 where "S1 = handleMessage paintDisc 0 firstPlacement inPlay"
  note f = firstPlacement_state[folded S1_def]
  have a: "animationInFlight S1"
    by (simp add: animationInFlight_def f)
  have k: "ownersKnown (players settledAgain) (magnets settledAgain)"
    by (simp add: ownersKnown_def settledAgain_def settled_def snapshot_def alice_def bob_def
        magnetA_def magnetB_def)
  have syn: "stateBeforeMovement settledAgain [movementA]
      = settledAgain\<lparr>magnets := [magnetA, magnetB\<lparr>position := \<lparr>xc = 410, yc = 300\<rparr>\<rparr>]\<rparr>"
    by (simp add: stateBeforeMovement_def resetToOrigin_def settledAgain_def settled_def
        snapshot_def movementA_def magnetA_def magnetB_def)
  have mv: "\<lparr>anim_magnetId = magnetId movementA, fromPos = fromPosition movementA,
               toPos = toPosition movementA, progress = 0\<rparr> = movingA"
    by (simp add: movementA_def movingA_def)
  note t = messages_not_queued[of settledAgain "[movementA]" paintDisc 100 magnetA S1 None
      "[magnetA, magnetB]" "settled\<lparr>magnets := [magnetA, magnetB]\<rparr>"
      "\<lparr>width = 800, height = 600, disabled = True\<rparr>" "snapshot\<lparr>magnets := []\<rparr>" "''B''" 2]
  have A: "\<exists>s1. handleServerMessage paintDisc 100 secondPlacement S1 = Normal s1
         \<and> gameState s1 =
             Some (settledAgain\<lparr>magnets := [magnetA, magnetB\<lparr>position := \<lparr>xc = 410, yc = 300\<rparr>\<rparr>]\<rparr>)
         \<and> animatingMagnets s1 = [movingA]
         \<and> frameRequests s1 =
             [(1, MoveAnimate 0 (Some (UpdateState settled))),
              (2, MoveAnimate 100 (Some (UpdateState settledAgain)))]"
    using t k by (simp add: secondPlacement_def syn mv f)
  have B: "\<exists>s1. handleServerMessage paintDisc 100 (MAGNET_PLACED settledAgain magnetA None) S1
               = Normal s1
         \<and> gameState s1 = Some settledAgain
         \<and> animatingMagnets s1 = [movingB]
         \<and> frameRequests s1 = [(1, MoveAnimate 0 (Some (UpdateState settled)))]"
    using t k by (simp add: f)
  have C: "\<exists>s1 cb. handleServerMessage paintDisc 100
                  collection S1
               = Normal s1
         \<and> gameState s1 = Some (settled\<lparr>magnets := [magnetA, magnetB]\<rparr>)
         \<and> animatingMagnets s1 = [movingB]
         \<and> frameRequests s1 = [(1, MoveAnimate 0 (Some (UpdateState settled))), (2, cb)]"
    using t by (simp add: f collection_def)
  show ?thesis
    unfolding S1_def[symmetric] using a k A B C by (intro conjI)
qed

text \<open>
  C1 as stated fails. A first placement starts an animation at time 0; a second
  placement arrives at time 100, while it is in flight. The second message is handled
  at once: its synthetic snapshot replaces the snapshot and its batch replaces
  \<open>animatingMagnets\<close>, while the callback of the first animation is still requested.
  In the frame at 600 the first animation completes and commits its own snapshot,
  \<open>settled\<close>, over the state of the later message, whose animation then still runs.
\<close>

theorem queueing_counterexample:
  "animationInFlight (handleMessage paintDisc 0 firstPlacement inPlay)
   \<and> gameState (handleMessage paintDisc 0 firstPlacement inPlay)
       = Some (settled\<lparr>magnets := [magnetA, magnetB]\<rparr>)
   \<and> gameState (handleMessage paintDisc 100 secondPlacement
                  (handleMessage paintDisc 0 firstPlacement inPlay))
       = Some (settledAgain\<lparr>magnets := [magnetA, magnetB\<lparr>position := \<lparr>xc = 410, yc = 300\<rparr>\<rparr>]\<rparr>)
   \<and> animatingMagnets (handleMessage paintDisc 100 secondPlacement
                  (handleMessage paintDisc 0 firstPlacement inPlay)) = [movingA]
   \<and> frameRequests (handleMessage paintDisc 100 secondPlacement
                  (handleMessage paintDisc 0 firstPlacement inPlay))
       = [(1, MoveAnimate 0 (Some (UpdateState settled))),
          (2, MoveAnimate 100 (Some (UpdateState settledAgain)))]
   \<and> gameState (animationFrame 600 (handleMessage paintDisc 100 secondPlacement
                  (handleMessage paintDisc 0 firstPlacement inPlay))) = Some settled
   \<and> frameRequests (animationFrame 600 (handleMessage paintDisc 100 secondPlacement
                  (handleMessage paintDisc 0 firstPlacement inPlay)))
       = [(3, MoveAnimate 100 (Some (UpdateState settledAgain)))]"
proof -
  define S1 where "S1 = handleMessage paintDisc 0 firstPlacement inPlay"
  define S2 where "S2 = handleMessage paintDisc 100 secondPlacement S1"
  note f = firstPlacement_state[folded S1_def]
  have k2: "ownersKnown (players settledAgain) (magnets settledAgain)"
    by (simp add: ownersKnown_def settledAgain_def settled_def snapshot_def alice_def bob_def
        magnetA_def magnetB_def)
  have k1: "ownersKnown (players settled) (magnets settled)"
    by (simp add: ownersKnown_def settled_def snapshot_def alice_def bob_def magnetA_def
        magnetB_def)
  have syn: "stateBeforeMovement settledAgain [movementA]
      = settledAgain\<lparr>magnets := [magnetA, magnetB\<lparr>position := \<lparr>xc = 410, yc = 300\<rparr>\<rparr>]\<rparr>"
    by (simp add: stateBeforeMovement_def resetToOrigin_def settledAgain_def settled_def
        snapshot_def movementA_def magnetA_def magnetB_def)
  have ks: "ownersKnown (players (stateBeforeMovement settledAgain [movementA]))
      (magnets (stateBeforeMovement settledAgain [movementA]))"
    by (simp add: syn) (simp add: ownersKnown_def settledAgain_def settled_def snapshot_def
        alice_def bob_def magnetA_def magnetB_def)
  have mv: "\<lparr>anim_magnetId = magnetId movementA, fromPos = fromPosition movementA,
               toPos = toPosition movementA, progress = 0\<rparr> = movingA"
    by (simp add: movementA_def movingA_def)
  obtain s2 where s2: "handleServerMessage paintDisc 100 secondPlacement S1 = Normal s2"
      "gameState s2 = Some (stateBeforeMovement settledAgain [movementA])"
      "animatingMagnets s2 = [movingA]"
      "frameRequests s2 = [(1, MoveAnimate 0 (Some (UpdateState settled))),
                           (2, MoveAnimate 100 (Some (UpdateState settledAgain)))]"
      "nextFrameHandle s2 = 3"
    using placed_with_movements[OF k2, of "[movementA]" paintDisc 100 magnetA S1]
    by (auto simp: secondPlacement_def f mv)
  have S2: "S2 = s2"
    by (simp add: S2_def handleMessage_def s2(1))
  let ?s' = "s2\<lparr>frameRequests := []\<rparr>"
  have c600: "\<not> moveProgress 0 600 < 1"
    by (simp add: moveProgress_def ANIMATION_DURATION_def)
  obtain s3 where s3: "moveAnimate 0 (Some (UpdateState settled)) 600 ?s' = Normal s3"
      "gameState s3 = Some settled" "animatingMagnets s3 = []" "frameRequests s3 = []"
      "nextFrameHandle s3 = 3"
    using moveAnimate_complete[of ?s' "stateBeforeMovement settledAgain [movementA]" settled 0 600]
      ks k1 c600 s2 by auto
  have r600: "moveProgress 100 600 < 1"
    by (simp add: moveProgress_def ANIMATION_DURATION_def)
  obtain s4 where s4: "moveAnimate 100 (Some (UpdateState settledAgain)) 600 s3 = Normal s4"
      "gameState s4 = Some settled"
      "frameRequests s4 = [(3, MoveAnimate 100 (Some (UpdateState settledAgain)))]"
    using moveAnimate_running[of s3 settled 100 600 "Some (UpdateState settledAgain)"] k1 r600 s3
    by auto
  have fr: "animationFrame 600 S2 = s4"
    by (simp add: S2 animationFrame_def s2 s3 s4)
  have "animationInFlight S1"
    by (simp add: animationInFlight_def f)
  then show ?thesis
    using f(1) s2 s4 fr by (simp add: S1_def[symmetric] S2_def[symmetric] S2 syn)
qed

end
